theory Spec2Isabelle
  imports Complex_Main "HOL-Library.Multiset"
begin

section \<open>Numbers and errors\<close>

text \<open>
  The library computes with C++ \<^verbatim>\<open>double\<close>. Arithmetic on finite values is modelled
  on \<^typ>\<open>real\<close>, so every equation below is an equation of the idealised (unrounded)
  arithmetic. Where the code inspects a value with \<^verbatim>\<open>std::isnan\<close> or
  \<^verbatim>\<open>std::isinf\<close>, or produces \<^verbatim>\<open>0.0 / 0\<close>, the value has the type
  \<open>double\<close> below, which adds the three kinds of non-finite value. The yield solver,
  whose target price is not validated and whose iterate can become NaN, computes on
  \<open>double\<close> throughout, with the operations \<open>dadd\<close>, \<open>dsub\<close>, \<open>dmul\<close>, \<open>ddiv\<close>,
  \<open>dabs\<close>, \<open>dlt\<close> and \<open>dgt\<close> below: on finite values they are the exact operations on
  reals (no rounding, overflow or underflow), on the other values they follow IEEE 754.
\<close>

datatype double = Finite real | PosInf | NegInf | NaN

fun isnan :: "double \<Rightarrow> bool" where
  "isnan NaN = True"
| "isnan _ = False"

fun isinf :: "double \<Rightarrow> bool" where
  "isinf PosInf = True"
| "isinf NegInf = True"
| "isinf _ = False"

text \<open>\<^verbatim>\<open>x <= 0.0\<close> on a double: every comparison with NaN is false.\<close>

fun le_zero :: "double \<Rightarrow> bool" where
  "le_zero (Finite x) = (x \<le> 0)"
| "le_zero NegInf = True"
| "le_zero PosInf = False"
| "le_zero NaN = False"

text \<open>The real number a finite double stands for; it is only applied after the
  \<^verbatim>\<open>isnan\<close>/\<^verbatim>\<open>isinf\<close> checks of the source have passed.\<close>

primrec the_real :: "double \<Rightarrow> real" where
  "the_real (Finite x) = x"









text \<open>\<^verbatim>\<open>std::invalid_argument\<close> and the \<^verbatim>\<open>std::runtime_error\<close> of the yield solver.\<close>

datatype error = InvalidArgument | RootNotBracketed

text \<open>A callee that throws ends the caller: \<open>and_then\<close> passes the error on.\<close>

definition and_then :: "error + 'a \<Rightarrow> ('a \<Rightarrow> error + 'b) \<Rightarrow> error + 'b" where
  "and_then r k = (case r of Inl e \<Rightarrow> Inl e | Inr v \<Rightarrow> k v)"

text \<open>\<^verbatim>\<open>std::pow\<close> on finite arguments. It agrees with the C function for a positive
  base. For a base that is zero or negative the C function has special cases (NaN, infinity,
  a sign) that a real number cannot carry; an equation below then only says that the code
  applies \<^verbatim>\<open>std::pow\<close> to these two arguments.\<close>

definition std_pow :: "real \<Rightarrow> real \<Rightarrow> real" where
  "std_pow x y = x powr y"

text \<open>\<^verbatim>\<open>std::max(a, b)\<close> returns \<^verbatim>\<open>(a < b) ? b : a\<close>.\<close>

definition std_max :: "real \<Rightarrow> real \<Rightarrow> real" where
  "std_max a b = (if a < b then b else a)"


section \<open>core/DiscountCurve\<close>

datatype Compounding = Annual | Semi | Quarterly | Monthly | Continuous

text \<open>\<^verbatim>\<open>static_cast<double>(compounding)\<close>: the enumerators carry the number of
  periods per year, \<^verbatim>\<open>Continuous = 0\<close>.\<close>

fun periods :: "Compounding \<Rightarrow> real" where
  "periods Annual = 1"
| "periods Semi = 2"
| "periods Quarterly = 4"
| "periods Monthly = 12"
| "periods Continuous = 0"

datatype DayCount = ACT_365F | THIRTY_360

text \<open>\<^verbatim>\<open>struct ZeroQuote { double time; double df; }\<close>. The constructor receives
  quotes of doubles; the quotes it keeps have passed validation and are finite.\<close>

record 'a ZeroQuote =
  zq_time :: 'a
  zq_df :: 'a

record DiscountCurve =
  curve_y :: real
  curve_m :: Compounding
  curve_dc :: DayCount
  curve_boot :: "real ZeroQuote list"

text \<open>Flat constructor.\<close>

definition DiscountCurve_flat :: "double \<Rightarrow> Compounding \<Rightarrow> DayCount \<Rightarrow> error + DiscountCurve" where
  "DiscountCurve_flat flatYield cmp dc =
     (if isnan flatYield \<or> isinf flatYield then Inl InvalidArgument
      else Inr \<lparr>curve_y = the_real flatYield, curve_m = cmp, curve_dc = dc, curve_boot = []\<rparr>)"

text \<open>Bootstrapped constructor. The validation loop throws at the first quote whose
  time or discount factor is \<^verbatim>\<open><= 0\<close>, NaN or infinite.\<close>

definition quote_invalid :: "double ZeroQuote \<Rightarrow> bool" where
  "quote_invalid quote =
     ((le_zero (zq_time quote) \<or> isnan (zq_time quote) \<or> isinf (zq_time quote)) \<or>
      (le_zero (zq_df quote) \<or> isnan (zq_df quote) \<or> isinf (zq_df quote)))"

definition stored_quote :: "double ZeroQuote \<Rightarrow> real ZeroQuote" where
  "stored_quote quote = \<lparr>zq_time = the_real (zq_time quote), zq_df = the_real (zq_df quote)\<rparr>"

text \<open>\<^verbatim>\<open>std::sort\<close> with the comparator \<^verbatim>\<open>a.time < b.time\<close> is modelled by the
  library's insertion sort on the key \<open>zq_time\<close>. The C++ sort leaves the relative order
  of quotes with equal times unspecified; the theorems on the constructor use only that the
  result is ordered by time and is a rearrangement of the input.\<close>

definition DiscountCurve_boot :: "double ZeroQuote list \<Rightarrow> error + DiscountCurve" where
  "DiscountCurve_boot quotes =
     (if quotes = [] then Inl InvalidArgument
      else if list_ex quote_invalid quotes then Inl InvalidArgument
      else Inr \<lparr>curve_y = 0, curve_m = Continuous, curve_dc = ACT_365F,
                curve_boot = sort_key zq_time (map stored_quote quotes)\<rparr>)"

text \<open>\<^verbatim>\<open>std::lower_bound\<close> with the comparator \<^verbatim>\<open>a.time < b.time\<close> on a table
  ordered by time: the position of the first quote whose time is not below \<open>t\<close>.\<close>

definition lower_bound :: "real ZeroQuote list \<Rightarrow> real \<Rightarrow> nat" where
  "lower_bound boot t = length (takeWhile (\<lambda>a. zq_time a < t) boot)"

definition df_interpolate :: "real ZeroQuote \<Rightarrow> real ZeroQuote \<Rightarrow> real \<Rightarrow> real" where
  "df_interpolate prev it t =
     (let t0 = zq_time prev; t1 = zq_time it; df0 = zq_df prev; df1 = zq_df it in
      if df0 \<le> 0 \<or> df1 \<le> 0 then
        (if t1 = t0 then df0
         else let weight = (t - t0) / (t1 - t0) in df0 + weight * (df1 - df0))
      else if t1 = t0 then df0
      else let weight = (t - t0) / (t1 - t0);
               logDF = ln df0 + weight * (ln df1 - ln df0)
           in exp logDF)"

definition df_flat :: "real \<Rightarrow> Compounding \<Rightarrow> real \<Rightarrow> real" where
  "df_flat y cmp t =
     (if t \<le> 0 then 1
      else if cmp = Continuous then exp (- y * t)
      else let m = periods cmp in
        if m = 0 then exp (- y * t)
        else std_pow (1 + y / m) (- m * t))"

definition df_boot :: "real ZeroQuote list \<Rightarrow> real \<Rightarrow> real" where
  "df_boot boot t =
     (if t \<le> 0 then 1
      else let it = lower_bound boot t in
        if it = 0 then zq_df (boot ! 0)
        else if it = length boot then zq_df (last boot)
        else df_interpolate (boot ! (it - 1)) (boot ! it) t)"

definition DiscountCurve_df :: "DiscountCurve \<Rightarrow> double \<Rightarrow> error + real" where
  "DiscountCurve_df c t =
     (if isnan t \<or> isinf t then Inl InvalidArgument
      else if curve_boot c \<noteq> [] then Inr (df_boot (curve_boot c) (the_real t))
      else Inr (df_flat (curve_y c) (curve_m c) (the_real t)))"

definition fwdBondPrice :: "DiscountCurve \<Rightarrow> double \<Rightarrow> error + real" where
  "fwdBondPrice c t =
     (case DiscountCurve_df c t of
        Inl e \<Rightarrow> Inl e
      | Inr discount \<Rightarrow> Inr (if discount > 0 then 1 / discount else 0))"

text \<open>The quotes of the test case on bootstrapped interpolation, and the curve built from
  them.\<close>

definition scenario_quotes :: "double ZeroQuote list" where
  "scenario_quotes =
     [\<lparr>zq_time = Finite 0.5, zq_df = Finite 0.98\<rparr>,
      \<lparr>zq_time = Finite 1.0, zq_df = Finite 0.95\<rparr>,
      \<lparr>zq_time = Finite 2.0, zq_df = Finite 0.90\<rparr>]"

definition scenario_curve :: DiscountCurve where
  "scenario_curve =
     \<lparr>curve_y = 0, curve_m = Continuous, curve_dc = ACT_365F,
      curve_boot = [\<lparr>zq_time = 0.5, zq_df = 0.98\<rparr>, \<lparr>zq_time = 1.0, zq_df = 0.95\<rparr>,
                    \<lparr>zq_time = 2.0, zq_df = 0.90\<rparr>]\<rparr>"

text \<open>Quotes of which two share the time \<open>2\<close>, in both orders, and the curves with these
  tables.\<close>

definition equal_time_quotes :: "real \<Rightarrow> real \<Rightarrow> double ZeroQuote list" where
  "equal_time_quotes d d' =
     [\<lparr>zq_time = Finite 1, zq_df = Finite 0.9\<rparr>,
      \<lparr>zq_time = Finite 2, zq_df = Finite d\<rparr>,
      \<lparr>zq_time = Finite 2, zq_df = Finite d'\<rparr>]"

definition equal_time_curve :: "real \<Rightarrow> real \<Rightarrow> DiscountCurve" where
  "equal_time_curve d d' =
     \<lparr>curve_y = 0, curve_m = Continuous, curve_dc = ACT_365F,
      curve_boot = [\<lparr>zq_time = 1, zq_df = 0.9\<rparr>, \<lparr>zq_time = 2, zq_df = d\<rparr>,
                    \<lparr>zq_time = 2, zq_df = d'\<rparr>]\<rparr>"

section \<open>engines/Black76\<close>

text \<open>\<^verbatim>\<open>std::erf\<close> belongs to the C library. It is modelled by the error
  function itself, given by its Maclaurin series
  \<open>erf x = 2/\<surd>\<pi> \<cdot> \<Sum>n. (-1)\<^sup>n x\<^sup>2\<^sup>n\<^sup>+\<^sup>1 / (n! (2n+1))\<close>.\<close>

definition erf_term :: "real \<Rightarrow> nat \<Rightarrow> real" where
  "erf_term x n = (- 1) ^ n * x ^ (2 * n + 1) / (fact n * real (2 * n + 1))"

definition std_erf :: "real \<Rightarrow> real" where
  "std_erf x = 2 / sqrt pi * (\<Sum>n. erf_term x n)"

definition Black76_d1 :: "real \<Rightarrow> real \<Rightarrow> real \<Rightarrow> real \<Rightarrow> real" where
  "Black76_d1 F K T sigma = (ln (F / K) + 0.5 * sigma * sigma * T) / (sigma * sqrt T)"

definition Black76_d2 :: "real \<Rightarrow> real \<Rightarrow> real \<Rightarrow> real \<Rightarrow> real" where
  "Black76_d2 F K T sigma = Black76_d1 F K T sigma - sigma * sqrt T"

definition normCDF :: "real \<Rightarrow> real" where
  "normCDF x = 0.5 * (1 + std_erf (x / sqrt 2))"

definition normPDF :: "real \<Rightarrow> real" where
  "normPDF x = (1 / sqrt (2 * pi)) * exp (- 0.5 * x * x)"

definition Black76_price :: "real \<Rightarrow> real \<Rightarrow> real \<Rightarrow> real \<Rightarrow> real \<Rightarrow> bool \<Rightarrow> real" where
  "Black76_price forwardPrice strike timeToExpiry volatility discountFactor isCall =
     (if timeToExpiry \<le> 0 \<or> volatility \<le> 0 then
        (if isCall then discountFactor * std_max (forwardPrice - strike) 0
         else discountFactor * std_max (strike - forwardPrice) 0)
      else
        let d1_val = Black76_d1 forwardPrice strike timeToExpiry volatility;
            d2_val = Black76_d2 forwardPrice strike timeToExpiry volatility
        in if isCall then
             discountFactor * (forwardPrice * normCDF d1_val - strike * normCDF d2_val)
           else
             discountFactor * (strike * normCDF (- d2_val) - forwardPrice * normCDF (- d1_val)))"

definition Black76_vega :: "real \<Rightarrow> real \<Rightarrow> real \<Rightarrow> real \<Rightarrow> real \<Rightarrow> real" where
  "Black76_vega forwardPrice strike timeToExpiry volatility discountFactor =
     (if timeToExpiry \<le> 0 \<or> volatility \<le> 0 then 0
      else
        let d1_val = Black76_d1 forwardPrice strike timeToExpiry volatility
        in discountFactor * forwardPrice * normPDF d1_val * sqrt timeToExpiry)"

definition Black76_delta :: "real \<Rightarrow> real \<Rightarrow> real \<Rightarrow> real \<Rightarrow> real \<Rightarrow> bool \<Rightarrow> real" where
  "Black76_delta forwardPrice strike timeToExpiry volatility discountFactor isCall =
     (if timeToExpiry \<le> 0 \<or> volatility \<le> 0 then
        (if isCall then discountFactor * (if forwardPrice > strike then 1 else 0)
         else discountFactor * (if forwardPrice < strike then - 1 else 0))
      else
        let d1_val = Black76_d1 forwardPrice strike timeToExpiry volatility
        in if isCall then discountFactor * normCDF d1_val
           else - discountFactor * normCDF (- d1_val))"

section \<open>engines/Sensitivity\<close>

record CashFlow =
  time :: real
  amount :: real

definition discountFactor :: "real \<Rightarrow> real \<Rightarrow> Compounding \<Rightarrow> real" where
  "discountFactor t yield compounding =
     (if compounding = Continuous then exp (- yield * t)
      else let m = periods compounding in std_pow (1 + yield / m) (- m * t))"

definition discountFactorDelta :: "real \<Rightarrow> real \<Rightarrow> Compounding \<Rightarrow> real" where
  "discountFactorDelta t yield compounding =
     (if compounding = Continuous then - t * exp (- yield * t)
      else let m = periods compounding; base = 1 + yield / m
           in - t * std_pow base (- m * t - 1))"

definition discountFactorGamma :: "real \<Rightarrow> real \<Rightarrow> Compounding \<Rightarrow> real" where
  "discountFactorGamma t yield compounding =
     (if compounding = Continuous then t * t * exp (- yield * t)
      else let m = periods compounding; base = 1 + yield / m
           in (t * t + t / m) * std_pow base (- m * t - 2))"

text \<open>Each of the three accumulation loops starts from \<open>0.0\<close> and adds one term per
  cash flow, in the order of the vector.\<close>

definition Sensitivity_price :: "CashFlow list \<Rightarrow> real \<Rightarrow> Compounding \<Rightarrow> real" where
  "Sensitivity_price cashFlows yield compounding =
     foldl (\<lambda>P cf. P + amount cf * discountFactor (time cf) yield compounding) 0 cashFlows"

definition priceDelta :: "CashFlow list \<Rightarrow> real \<Rightarrow> Compounding \<Rightarrow> real" where
  "priceDelta cashFlows yield compounding =
     foldl (\<lambda>dP_dy cf. dP_dy + amount cf * discountFactorDelta (time cf) yield compounding) 0 cashFlows"

definition priceGamma :: "CashFlow list \<Rightarrow> real \<Rightarrow> Compounding \<Rightarrow> real" where
  "priceGamma cashFlows yield compounding =
     foldl (\<lambda>d2P_dy2 cf. d2P_dy2 + amount cf * discountFactorGamma (time cf) yield compounding) 0 cashFlows"

definition modifiedDuration :: "CashFlow list \<Rightarrow> real \<Rightarrow> Compounding \<Rightarrow> real" where
  "modifiedDuration cashFlows yield compounding =
     (let P = Sensitivity_price cashFlows yield compounding;
          dP_dy = priceDelta cashFlows yield compounding
      in if P = 0 then 0 else - dP_dy / P)"

definition dv01 :: "CashFlow list \<Rightarrow> real \<Rightarrow> Compounding \<Rightarrow> real" where
  "dv01 cashFlows yield compounding =
     (let dP_dy = priceDelta cashFlows yield compounding in - dP_dy * 0.0001)"

definition convexity :: "CashFlow list \<Rightarrow> real \<Rightarrow> Compounding \<Rightarrow> real" where
  "convexity cashFlows yield compounding =
     (let P = Sensitivity_price cashFlows yield compounding;
          d2P_dy2 = priceGamma cashFlows yield compounding
      in if P = 0 then 0 else d2P_dy2 / P)"

section \<open>instruments/Bond\<close>




section \<open>engines/YieldSolver\<close>


















section \<open>engines/MonteCarlo\<close>

datatype OptionType = Call | Put

record Config =
  batchSize :: nat
  useAntithetic :: bool
  randomSeed :: int
  enableVectorization :: bool

text \<open>The default constructor of \<^verbatim>\<open>Config\<close>.\<close>

definition Config_default :: Config where
  "Config_default =
     \<lparr>batchSize = 8000, useAntithetic = True, randomSeed = 42, enableVectorization = True\<rparr>"

record MCResult =
  price :: double
  standardError :: double
  confidenceInterval95 :: double
  effectivePaths :: nat
  varianceReduction :: real

text \<open>
  The random source belongs to the C++ library. The engine is modelled over any generator
  state \<open>'s\<close>: the parameter \<open>mt19937\<close> is the seeding constructor
  \<^verbatim>\<open>std::mt19937 rng(seed)\<close>, and the parameter \<open>normal\<close> is one evaluation of
  \<^verbatim>\<open>normal(rng)\<close>, which returns the draw and the state it leaves behind (the state
  of the generator together with that of the distribution object, which lives as long as
  the call). The counters of type \<^verbatim>\<open>std::size_t\<close> are natural numbers: they stay
  below \<open>N + batchSize\<close> and \<open>2 * N\<close>, far from \<open>2^64\<close> for any path count that can be run.
\<close>

definition payoff :: "real \<Rightarrow> real \<Rightarrow> OptionType \<Rightarrow> real" where
  "payoff FT K tp = (if tp = Call then std_max (FT - K) 0 else std_max (K - FT) 0)"

text \<open>An \<^verbatim>\<open>Eigen::ArrayXd\<close> is a list of reals; the array expression
  \<^verbatim>\<open>F0 * (drift + vol_sqrt_T * randoms).exp()\<close> applies the scalar operations to
  every coefficient. Eigen is a library outside this repository: its array \<^verbatim>\<open>exp\<close> is
  taken to be the exponential function on reals, like \<^verbatim>\<open>std::exp\<close> in the scalar
  branch. Whether the two round to the same double is not expressed on reals.\<close>

definition generatePaths :: "real \<Rightarrow> real \<Rightarrow> real \<Rightarrow> real list \<Rightarrow> real list" where
  "generatePaths F0 sigma T randoms =
     (let drift = - 0.5 * sigma * sigma * T;
          vol_sqrt_T = sigma * sqrt T
      in map (\<lambda>Z. F0 * exp (drift + vol_sqrt_T * Z)) randoms)"

definition generateAntitheticPaths ::
  "real \<Rightarrow> real \<Rightarrow> real \<Rightarrow> real list \<Rightarrow> real list \<times> real list" where
  "generateAntitheticPaths F0 sigma T randoms =
     (let drift = - 0.5 * sigma * sigma * T;
          vol_sqrt_T = sigma * sqrt T;
          paths1 = map (\<lambda>Z. F0 * exp (drift + vol_sqrt_T * Z)) randoms;
          paths2 = map (\<lambda>Z. F0 * exp (drift + vol_sqrt_T * (- Z))) randoms
      in (paths1, paths2))"

text \<open>\<^verbatim>\<open>for (i = 0; i < currentBatchSize; ++i) randoms(i) = normal(rng);\<close>\<close>

fun fill_randoms :: "('s \<Rightarrow> real \<times> 's) \<Rightarrow> nat \<Rightarrow> 's \<Rightarrow> real list \<times> 's" where
  "fill_randoms normal 0 rng = ([], rng)"
| "fill_randoms normal (Suc n) rng =
     (let (Z, rng) = normal rng;
          (randoms, rng) = fill_randoms normal n rng
      in (Z # randoms, rng))"

text \<open>The scalar branch of \<^verbatim>\<open>simulateVectorized\<close>: one draw per pass, on the state
  \<open>(payoffSum, totalPaths, rng)\<close>. The first argument counts the passes that remain.\<close>

fun scalar_paths ::
  "nat \<Rightarrow> ('s \<Rightarrow> real \<times> 's) \<Rightarrow> real \<Rightarrow> real \<Rightarrow> real \<Rightarrow> real \<Rightarrow> real \<Rightarrow> OptionType \<Rightarrow> bool
     \<Rightarrow> real \<times> nat \<times> 's \<Rightarrow> real \<times> nat \<times> 's" where
  "scalar_paths 0 normal F0 K sigma sqrtT drift tp anti st = st"
| "scalar_paths (Suc n) normal F0 K sigma sqrtT drift tp anti (payoffSum, totalPaths, rng) =
     (let (Z, rng) = normal rng;
          FT = F0 * exp (drift + sigma * sqrtT * Z);
          payoffSum = payoffSum + payoff FT K tp;
          totalPaths = totalPaths + 1
      in if anti then
           (let FT_anti = F0 * exp (drift + sigma * sqrtT * (- Z));
                payoffSum = payoffSum + payoff FT_anti K tp;
                totalPaths = totalPaths + 1
            in scalar_paths n normal F0 K sigma sqrtT drift tp anti (payoffSum, totalPaths, rng))
         else scalar_paths n normal F0 K sigma sqrtT drift tp anti (payoffSum, totalPaths, rng))"

text \<open>The body of the batch loop of \<^verbatim>\<open>simulateVectorized\<close>.\<close>

definition simulate_batch ::
  "('s \<Rightarrow> real \<times> 's) \<Rightarrow> real \<Rightarrow> real \<Rightarrow> real \<Rightarrow> real \<Rightarrow> real \<Rightarrow> real \<Rightarrow> OptionType \<Rightarrow> Config
     \<Rightarrow> nat \<Rightarrow> real \<times> nat \<times> 's \<Rightarrow> real \<times> nat \<times> 's" where
  "simulate_batch normal F0 K sigma T sqrtT drift tp config currentBatchSize st =
     (case st of (payoffSum, totalPaths, rng) \<Rightarrow>
      if enableVectorization config \<and> currentBatchSize > 1 then
        (let (randoms, rng) = fill_randoms normal currentBatchSize rng in
         if useAntithetic config then
           (let (paths1, paths2) = generateAntitheticPaths F0 sigma T randoms;
                payoffSum = foldl (\<lambda>payoffSum i.
                              payoffSum + payoff (paths1 ! i) K tp + payoff (paths2 ! i) K tp)
                              payoffSum [0..<currentBatchSize]
            in (payoffSum, totalPaths + 2 * currentBatchSize, rng))
         else
           (let paths = generatePaths F0 sigma T randoms;
                payoffSum = foldl (\<lambda>payoffSum i. payoffSum + payoff (paths ! i) K tp)
                              payoffSum [0..<currentBatchSize]
            in (payoffSum, totalPaths + currentBatchSize, rng)))
      else
        scalar_paths currentBatchSize normal F0 K sigma sqrtT drift tp (useAntithetic config)
          (payoffSum, totalPaths, rng))"

text \<open>\<^verbatim>\<open>for (batch = 0; batch < N; batch += config.batchSize)\<close>. With
  \<open>batchSize = 0\<close> and \<open>N > 0\<close> the loop never ends; the model then has no result.\<close>

partial_function (option) batch_loop ::
  "('s \<Rightarrow> real \<times> 's) \<Rightarrow> real \<Rightarrow> real \<Rightarrow> real \<Rightarrow> real \<Rightarrow> real \<Rightarrow> real \<Rightarrow> OptionType \<Rightarrow> nat \<Rightarrow> Config
     \<Rightarrow> nat \<Rightarrow> real \<times> nat \<times> 's \<Rightarrow> (real \<times> nat \<times> 's) option" where
  "batch_loop normal F0 K sigma T sqrtT drift tp N config batch st =
     (if batch < N then
        (let currentBatchSize = min (batchSize config) (N - batch) in
         batch_loop normal F0 K sigma T sqrtT drift tp N config (batch + batchSize config)
           (simulate_batch normal F0 K sigma T sqrtT drift tp config currentBatchSize st))
      else Some st)"

text \<open>\<^verbatim>\<open>simulateVectorized\<close> takes the generator by reference: the model returns the
  price together with the generator state it leaves. With no path at all the final
  division is \<^verbatim>\<open>0.0 / 0\<close>.\<close>

definition simulateVectorized ::
  "('s \<Rightarrow> real \<times> 's) \<Rightarrow> real \<Rightarrow> real \<Rightarrow> real \<Rightarrow> real \<Rightarrow> real \<Rightarrow> OptionType \<Rightarrow> nat \<Rightarrow> Config \<Rightarrow> 's
     \<Rightarrow> (double \<times> 's) option" where
  "simulateVectorized normal F0 K sigma T df tp N config rng =
     (if T \<le> 0 then Some (Finite (df * payoff F0 K tp), rng)
      else
        let sqrtT = sqrt T;
            drift = - 0.5 * sigma * sigma * T
        in case batch_loop normal F0 K sigma T sqrtT drift tp N config 0 (0, 0, rng) of
             None \<Rightarrow> None
           | Some (payoffSum, totalPaths, rng) \<Rightarrow>
               Some (if totalPaths = 0 then NaN else Finite (df * (payoffSum / real totalPaths)),
                     rng))"

definition mcPrice ::
  "(int \<Rightarrow> 's) \<Rightarrow> ('s \<Rightarrow> real \<times> 's) \<Rightarrow> real \<Rightarrow> real \<Rightarrow> real \<Rightarrow> real \<Rightarrow> real \<Rightarrow> OptionType \<Rightarrow> nat
     \<Rightarrow> double option" where
  "mcPrice mt19937 normal F0 K sigma T df tp N =
     (let defaultConfig = Config_default;
          rng = mt19937 (randomSeed defaultConfig)
      in map_option fst (simulateVectorized normal F0 K sigma T df tp N defaultConfig rng))"

definition mcPriceAdvanced ::
  "(int \<Rightarrow> 's) \<Rightarrow> ('s \<Rightarrow> real \<times> 's) \<Rightarrow> real \<Rightarrow> real \<Rightarrow> real \<Rightarrow> real \<Rightarrow> real \<Rightarrow> OptionType \<Rightarrow> nat
     \<Rightarrow> Config \<Rightarrow> double option" where
  "mcPriceAdvanced mt19937 normal F0 K sigma T df tp N config =
     (let rng = mt19937 (randomSeed config)
      in map_option fst (simulateVectorized normal F0 K sigma T df tp N config rng))"

text \<open>\<^verbatim>\<open>mcPriceWithStats\<close> repeats the batch loop on the state \<open>(payoffs, rng)\<close>;
  \<^verbatim>\<open>push_back\<close> appends at the end of the vector.\<close>

fun stats_scalar_paths ::
  "nat \<Rightarrow> ('s \<Rightarrow> real \<times> 's) \<Rightarrow> real \<Rightarrow> real \<Rightarrow> real \<Rightarrow> real \<Rightarrow> real \<Rightarrow> OptionType \<Rightarrow> bool
     \<Rightarrow> real list \<times> 's \<Rightarrow> real list \<times> 's" where
  "stats_scalar_paths 0 normal F0 K sigma sqrtT drift tp anti st = st"
| "stats_scalar_paths (Suc n) normal F0 K sigma sqrtT drift tp anti (payoffs, rng) =
     (let (Z, rng) = normal rng;
          FT = F0 * exp (drift + sigma * sqrtT * Z);
          payoffs = payoffs @ [payoff FT K tp]
      in if anti then
           (let FT_anti = F0 * exp (drift + sigma * sqrtT * (- Z));
                payoffs = payoffs @ [payoff FT_anti K tp]
            in stats_scalar_paths n normal F0 K sigma sqrtT drift tp anti (payoffs, rng))
         else stats_scalar_paths n normal F0 K sigma sqrtT drift tp anti (payoffs, rng))"

definition stats_batch ::
  "('s \<Rightarrow> real \<times> 's) \<Rightarrow> real \<Rightarrow> real \<Rightarrow> real \<Rightarrow> real \<Rightarrow> real \<Rightarrow> real \<Rightarrow> OptionType \<Rightarrow> Config
     \<Rightarrow> nat \<Rightarrow> real list \<times> 's \<Rightarrow> real list \<times> 's" where
  "stats_batch normal F0 K sigma T sqrtT drift tp config currentBatchSize st =
     (case st of (payoffs, rng) \<Rightarrow>
      if enableVectorization config \<and> currentBatchSize > 1 then
        (let (randoms, rng) = fill_randoms normal currentBatchSize rng in
         if useAntithetic config then
           (let (paths1, paths2) = generateAntitheticPaths F0 sigma T randoms;
                payoffs = foldl (\<lambda>payoffs i.
                            (payoffs @ [payoff (paths1 ! i) K tp]) @ [payoff (paths2 ! i) K tp])
                            payoffs [0..<currentBatchSize]
            in (payoffs, rng))
         else
           (let paths = generatePaths F0 sigma T randoms;
                payoffs = foldl (\<lambda>payoffs i. payoffs @ [payoff (paths ! i) K tp])
                            payoffs [0..<currentBatchSize]
            in (payoffs, rng)))
      else
        stats_scalar_paths currentBatchSize normal F0 K sigma sqrtT drift tp (useAntithetic config)
          (payoffs, rng))"

partial_function (option) stats_batch_loop ::
  "('s \<Rightarrow> real \<times> 's) \<Rightarrow> real \<Rightarrow> real \<Rightarrow> real \<Rightarrow> real \<Rightarrow> real \<Rightarrow> real \<Rightarrow> OptionType \<Rightarrow> nat \<Rightarrow> Config
     \<Rightarrow> nat \<Rightarrow> real list \<times> 's \<Rightarrow> (real list \<times> 's) option" where
  "stats_batch_loop normal F0 K sigma T sqrtT drift tp N config batch st =
     (if batch < N then
        (let currentBatchSize = min (batchSize config) (N - batch) in
         stats_batch_loop normal F0 K sigma T sqrtT drift tp N config (batch + batchSize config)
           (stats_batch normal F0 K sigma T sqrtT drift tp config currentBatchSize st))
      else Some st)"

text \<open>The paths of \<^verbatim>\<open>mcPriceWithStats\<close>: its generator, seeded from the
  configuration, and its batch loop. The result is the vector of payoffs and the state the
  generator is left in.\<close>

definition mcPriceWithStats_paths ::
  "(int \<Rightarrow> 's) \<Rightarrow> ('s \<Rightarrow> real \<times> 's) \<Rightarrow> real \<Rightarrow> real \<Rightarrow> real \<Rightarrow> real \<Rightarrow> OptionType \<Rightarrow> nat \<Rightarrow> Config
     \<Rightarrow> (real list \<times> 's) option" where
  "mcPriceWithStats_paths mt19937 normal F0 K sigma T tp N config =
     (let rng = mt19937 (randomSeed config);
          sqrtT = sqrt T;
          drift = - 0.5 * sigma * sigma * T
      in stats_batch_loop normal F0 K sigma T sqrtT drift tp N config 0 ([], rng))"

text \<open>The statistics. For \<open>T < 0\<close> the C function \<^verbatim>\<open>std::sqrt\<close> returns NaN, which
  every path value, every payoff (\<^verbatim>\<open>std::max(NaN, 0.0)\<close> is NaN) and each of the three
  statistics inherit; with no payoff at all the divisions are \<^verbatim>\<open>0.0 / 0\<close>.\<close>

definition mcPriceWithStats ::
  "(int \<Rightarrow> 's) \<Rightarrow> ('s \<Rightarrow> real \<times> 's) \<Rightarrow> real \<Rightarrow> real \<Rightarrow> real \<Rightarrow> real \<Rightarrow> real \<Rightarrow> OptionType \<Rightarrow> nat
     \<Rightarrow> Config \<Rightarrow> MCResult option" where
  "mcPriceWithStats mt19937 normal F0 K sigma T df tp N config =
     (let effective = (if useAntithetic config then N * 2 else N) in
      case mcPriceWithStats_paths mt19937 normal F0 K sigma T tp N config of
        None \<Rightarrow> None
      | Some (payoffs, rng) \<Rightarrow>
          let (sum, sumSquares) =
                foldl (\<lambda>(sum, sumSquares) p. (sum + p, sumSquares + p * p)) (0, 0) payoffs;
              size = real (length payoffs)
          in if T < 0 \<or> payoffs = [] then
               Some \<lparr>price = NaN, standardError = NaN, confidenceInterval95 = NaN,
                      effectivePaths = effective, varianceReduction = 0\<rparr>
             else
               let variance = (sumSquares / size) - (sum / size) * (sum / size);
                   stdErr = df * sqrt (variance / size)
               in Some \<lparr>price = Finite (df * sum / size), standardError = Finite stdErr,
                         confidenceInterval95 = Finite (1.96 * stdErr),
                         effectivePaths = effective, varianceReduction = 0\<rparr>)"

text \<open>A generator on which the engine can be run: its state counts the draws made so
  far, starting from the seed, and the draw made in state \<open>s\<close> is \<open>s / 10\<close>.\<close>

definition counting_seed :: "int \<Rightarrow> nat" where
  "counting_seed seed = nat seed"

definition counting_draw :: "nat \<Rightarrow> real \<times> nat" where
  "counting_draw s = (real s / 10, Suc s)"

section \<open>Sensitivity engine: price and ratios\<close>

lemma foldl_add_sum_list:
  "foldl (\<lambda>acc x. acc + g x) a xs = (a::real) + (\<Sum>x\<leftarrow>xs. g x)"
  by (induction xs arbitrary: a) simp_all

text \<open>
  Claim C8. For every cash-flow sequence, yield and compounding convention, the price of
  the sensitivity engine is the sum over the cash flows of \<open>amount * df\<close>, where \<open>df\<close> is
  \<open>exp (- y * t)\<close> under continuous compounding and \<open>(1 + y / m)\<close> to the power
  \<open>- m * t\<close> under a discrete convention with \<open>m\<close> periods per year (1, 2, 4 or 12);
  the modified duration is \<open>- priceDelta / price\<close> and the convexity is
  \<open>priceGamma / price\<close>, both \<open>0\<close> when the price is \<open>0\<close>; and the DV01 is
  \<open>- priceDelta * 0.0001\<close>.
\<close>

theorem Sensitivity_price_formulas:
  "Sensitivity_price cashFlows y c =
     (\<Sum>cf\<leftarrow>cashFlows. amount cf *
        (if c = Continuous then exp (- y * time cf)
         else (1 + y / periods c) powr (- periods c * time cf)))
   \<and> modifiedDuration cashFlows y c =
       (if Sensitivity_price cashFlows y c = 0 then 0
        else - priceDelta cashFlows y c / Sensitivity_price cashFlows y c)
   \<and> convexity cashFlows y c =
       (if Sensitivity_price cashFlows y c = 0 then 0
        else priceGamma cashFlows y c / Sensitivity_price cashFlows y c)
   \<and> dv01 cashFlows y c = - priceDelta cashFlows y c * 0.0001
   \<and> periods Annual = 1 \<and> periods Semi = 2 \<and> periods Quarterly = 4 \<and> periods Monthly = 12"
proof -
  have p: "Sensitivity_price cashFlows y c =
     (\<Sum>cf\<leftarrow>cashFlows. amount cf *
        (if c = Continuous then exp (- y * time cf)
         else (1 + y / periods c) powr (- periods c * time cf)))"
    unfolding Sensitivity_price_def foldl_add_sum_list
    by (simp add: discountFactor_def std_pow_def Let_def cong: if_cong)
  have d: "modifiedDuration cashFlows y c =
       (if Sensitivity_price cashFlows y c = 0 then 0
        else - priceDelta cashFlows y c / Sensitivity_price cashFlows y c)"
    by (simp add: modifiedDuration_def Let_def)
  have x: "convexity cashFlows y c =
       (if Sensitivity_price cashFlows y c = 0 then 0
        else priceGamma cashFlows y c / Sensitivity_price cashFlows y c)"
    by (simp add: convexity_def Let_def)
  have v: "dv01 cashFlows y c = - priceDelta cashFlows y c * 0.0001"
    by (simp add: dv01_def Let_def)
  from p d x v show ?thesis by simp
qed

section \<open>Monte Carlo: the simple entry point\<close>

text \<open>
  Claim C10. For all inputs, \<open>mcPrice\<close> returns the value of \<open>mcPriceAdvanced\<close> called with
  the default configuration (batch size 8000, antithetic variates on, seed 42,
  vectorization on): both seed a fresh generator from the seed of the configuration and
  hand over to \<open>simulateVectorized\<close>.
\<close>

theorem mcPrice_default_config:
  "mcPrice mt19937 normal F0 K sigma T df tp N =
     mcPriceAdvanced mt19937 normal F0 K sigma T df tp N Config_default
   \<and> batchSize Config_default = 8000 \<and> useAntithetic Config_default
   \<and> randomSeed Config_default = 42 \<and> enableVectorization Config_default"
  by (simp add: mcPrice_def mcPriceAdvanced_def Config_default_def)

section \<open>The closed-form pricer\<close>

lemma erf_term_minus: "erf_term (- x) n = - erf_term x n"
  by (simp add: erf_term_def)

lemma summable_erf_term: "summable (erf_term x)"
proof (rule summable_comparison_test')
  show "summable (\<lambda>n. \<bar>x\<bar> * (inverse (fact n) * (x\<^sup>2) ^ n))"
    by (intro summable_mult summable_exp)
  show "\<And>n. n \<ge> 0 \<Longrightarrow> norm (erf_term x n) \<le> \<bar>x\<bar> * (inverse (fact n) * (x\<^sup>2) ^ n)"
  proof -
    fix n :: nat
    have "norm (erf_term x n) = \<bar>x\<bar> * (x\<^sup>2) ^ n / (fact n * real (2 * n + 1))"
      by (simp add: erf_term_def abs_mult power_abs power_mult power_even_abs)
    also have "\<dots> \<le> \<bar>x\<bar> * (x\<^sup>2) ^ n / (fact n * 1)"
      by (intro divide_left_mono mult_left_mono) (auto intro!: mult_nonneg_nonneg mult_pos_pos)
    finally show "norm (erf_term x n) \<le> \<bar>x\<bar> * (inverse (fact n) * (x\<^sup>2) ^ n)"
      by (simp add: field_simps)
  qed
qed

lemma std_erf_minus: "std_erf (- x) = - std_erf x"
  by (simp add: std_erf_def erf_term_minus suminf_minus[OF summable_erf_term])

lemma normCDF_symmetric: "normCDF x + normCDF (- x) = 1"
  by (simp add: normCDF_def std_erf_minus field_simps)

lemma std_max_max: "std_max a b = max a b"
  by (simp add: std_max_def max_def)

text \<open>
  Claim C5. For all inputs \<open>(F, K, T, sigma, D, isCall)\<close>: when \<open>T \<le> 0\<close> or
  \<open>sigma \<le> 0\<close>, the price is \<open>D * max (F - K) 0\<close> for a call and \<open>D * max (K - F) 0\<close>
  for a put, the vega is \<open>0\<close>, and the delta is the discounted indicator of moneyness
  (\<open>D\<close> if \<open>F > K\<close> else \<open>0\<close> for a call, \<open>- D\<close> if \<open>F < K\<close> else \<open>0\<close> for a put).
  Otherwise, with \<open>d1 = (ln (F / K) + 0.5 * sigma\<^sup>2 * T) / (sigma * sqrt T)\<close> and
  \<open>d2 = d1 - sigma * sqrt T\<close>, the call price is \<open>D * (F * N d1 - K * N d2)\<close>, the put
  price is \<open>D * (K * N (- d2) - F * N (- d1))\<close>, the vega is \<open>D * F * \<phi> d1 * sqrt T\<close>,
  the call delta is \<open>D * N d1\<close> and the put delta is \<open>- D * N (- d1)\<close>, where \<open>N\<close> is the
  standard normal distribution function, computed from the error function, and \<open>\<phi>\<close> is
  the standard normal density.
\<close>

theorem Black76_closed_form:
  "Black76_price F K T sigma D isCall =
     (if T \<le> 0 \<or> sigma \<le> 0 then
        (if isCall then D * max (F - K) 0 else D * max (K - F) 0)
      else
        let d1 = (ln (F / K) + 0.5 * sigma\<^sup>2 * T) / (sigma * sqrt T);
            d2 = d1 - sigma * sqrt T
        in if isCall then D * (F * normCDF d1 - K * normCDF d2)
           else D * (K * normCDF (- d2) - F * normCDF (- d1)))
   \<and> Black76_vega F K T sigma D =
     (if T \<le> 0 \<or> sigma \<le> 0 then 0
      else
        let d1 = (ln (F / K) + 0.5 * sigma\<^sup>2 * T) / (sigma * sqrt T)
        in D * F * normPDF d1 * sqrt T)
   \<and> Black76_delta F K T sigma D isCall =
     (if T \<le> 0 \<or> sigma \<le> 0 then
        (if isCall then (if F > K then D else 0) else (if F < K then - D else 0))
      else
        let d1 = (ln (F / K) + 0.5 * sigma\<^sup>2 * T) / (sigma * sqrt T)
        in if isCall then D * normCDF d1 else - D * normCDF (- d1))
   \<and> (\<forall>x. normCDF x = (1 + std_erf (x / sqrt 2)) / 2)
   \<and> (\<forall>x. normPDF x = exp (- (x\<^sup>2) / 2) / sqrt (2 * pi))"
proof -
  have d1: "Black76_d1 F K T sigma = (ln (F / K) + 0.5 * sigma\<^sup>2 * T) / (sigma * sqrt T)"
    by (simp add: Black76_d1_def power2_eq_square)
  have d2: "Black76_d2 F K T sigma =
      (ln (F / K) + 0.5 * sigma\<^sup>2 * T) / (sigma * sqrt T) - sigma * sqrt T"
    by (simp add: Black76_d2_def d1)
  have p: "Black76_price F K T sigma D isCall =
     (if T \<le> 0 \<or> sigma \<le> 0 then
        (if isCall then D * max (F - K) 0 else D * max (K - F) 0)
      else
        let d1 = (ln (F / K) + 0.5 * sigma\<^sup>2 * T) / (sigma * sqrt T);
            d2 = d1 - sigma * sqrt T
        in if isCall then D * (F * normCDF d1 - K * normCDF d2)
           else D * (K * normCDF (- d2) - F * normCDF (- d1)))"
    unfolding Black76_price_def d1 d2 std_max_max Let_def by simp
  have v: "Black76_vega F K T sigma D =
     (if T \<le> 0 \<or> sigma \<le> 0 then 0
      else
        let d1 = (ln (F / K) + 0.5 * sigma\<^sup>2 * T) / (sigma * sqrt T)
        in D * F * normPDF d1 * sqrt T)"
    unfolding Black76_vega_def d1 Let_def by simp
  have dl: "Black76_delta F K T sigma D isCall =
     (if T \<le> 0 \<or> sigma \<le> 0 then
        (if isCall then (if F > K then D else 0) else (if F < K then - D else 0))
      else
        let d1 = (ln (F / K) + 0.5 * sigma\<^sup>2 * T) / (sigma * sqrt T)
        in if isCall then D * normCDF d1 else - D * normCDF (- d1))"
    unfolding Black76_delta_def d1 Let_def by simp
  have n: "\<forall>x. normCDF x = (1 + std_erf (x / sqrt 2)) / 2"
    by (simp add: normCDF_def)
  have f: "\<forall>x. normPDF x = exp (- (x\<^sup>2) / 2) / sqrt (2 * pi)"
    by (simp add: normPDF_def power2_eq_square)
  from p v dl n f show ?thesis by blast
qed

text \<open>
  Claim C9. Put-call parity of the closed-form pricer: for all \<open>F\<close>, \<open>K\<close>, \<open>T > 0\<close>,
  \<open>sigma > 0\<close> and \<open>D\<close> in \<open>(0, 1]\<close>, the call price minus the put price is
  \<open>D * (F - K)\<close>, because \<open>N x + N (- x) = 1\<close> for the distribution function built on
  the error function.
\<close>

theorem put_call_parity:
  assumes "0 < F" and "0 < K" and "0 < T" and "0 < sigma" and "0 < D" and "D \<le> 1"
  shows "Black76_price F K T sigma D True - Black76_price F K T sigma D False = D * (F - K)"
proof -
  define x1 where "x1 = Black76_d1 F K T sigma"
  define x2 where "x2 = Black76_d2 F K T sigma"
  have n1: "normCDF (- x1) = 1 - normCDF x1"
    using normCDF_symmetric [of x1] by simp
  have n2: "normCDF (- x2) = 1 - normCDF x2"
    using normCDF_symmetric [of x2] by simp
  from assms have "Black76_price F K T sigma D True - Black76_price F K T sigma D False =
      D * (F * normCDF x1 - K * normCDF x2) - D * (K * normCDF (- x2) - F * normCDF (- x1))"
    by (simp add: Black76_price_def x1_def x2_def Let_def)
  also have "\<dots> = D * (F - K)"
    unfolding n1 n2 by (simp add: algebra_simps)
  finally show ?thesis .
qed

theorem put_call_parity_witness:
  "(0::real) < 1.3 \<and> (0::real) < 1.25 \<and> (0::real) < 1 \<and> (0::real) < 0.2
   \<and> (0::real) < 0.95 \<and> (0.95::real) \<le> 1
   \<and> Black76_price 1.3 1.25 1 0.2 0.95 True - Black76_price 1.3 1.25 1 0.2 0.95 False
       = 0.95 * (1.3 - 1.25)"
  using put_call_parity [of "1.3" "1.25" 1 "0.2" "0.95"] by simp

section \<open>Construction of a bootstrapped curve\<close>

lemma stored_quote_positive:
  "\<not> quote_invalid q \<Longrightarrow> 0 < zq_time (stored_quote q) \<and> 0 < zq_df (stored_quote q)"
  by (cases "zq_time q"; cases "zq_df q") (simp_all add: quote_invalid_def stored_quote_def)

lemma stored_quotes_positive:
  "\<not> list_ex quote_invalid quotes \<Longrightarrow>
     list_all (\<lambda>a. 0 < zq_time a \<and> 0 < zq_df a) (map stored_quote quotes)"
  by (induction quotes) (simp_all add: stored_quote_positive)

lemma list_all_sort_key:
  "list_all P (sort_key f xs) = list_all P xs"
  by (simp add: list_all_iff)

lemma strictly_sorted_sort_key:
  "sorted_wrt (<) (map f (sort_key f xs)) \<longleftrightarrow> distinct (map f xs)"
proof -
  have "mset (map f (sort_key f xs)) = mset (map f xs)"
    by simp
  then have "distinct (map f (sort_key f xs)) = distinct (map f xs)"
    by (rule mset_eq_imp_distinct_iff)
  then show ?thesis
    by (simp add: strict_sorted_iff)
qed

text \<open>
  Claim C7, as amended. The bootstrapped constructor fails with \<open>InvalidArgument\<close> exactly
  when the quote sequence is empty or some quote has a non-finite or non-positive time or
  discount factor, and it fails in no other way. On success the stored table is not empty,
  every stored quote has a time above \<open>0\<close> and a discount factor above \<open>0\<close> (a discount
  factor above \<open>1\<close> is accepted), and the table is a rearrangement of the given quotes in
  ascending order of time; the times are strictly increasing exactly when the given times
  are pairwise distinct (quotes with equal times are accepted and kept).
\<close>

theorem DiscountCurve_boot_validation:
  "(DiscountCurve_boot quotes = Inl InvalidArgument \<longleftrightarrow>
      quotes = [] \<or>
      list_ex (\<lambda>q. isnan (zq_time q) \<or> isinf (zq_time q) \<or> le_zero (zq_time q) \<or>
                    isnan (zq_df q) \<or> isinf (zq_df q) \<or> le_zero (zq_df q)) quotes)
   \<and> DiscountCurve_boot quotes \<noteq> Inl RootNotBracketed
   \<and> (\<forall>c. DiscountCurve_boot quotes = Inr c \<longrightarrow>
          curve_boot c \<noteq> []
        \<and> list_all (\<lambda>a. 0 < zq_time a \<and> 0 < zq_df a) (curve_boot c)
        \<and> sorted (map zq_time (curve_boot c))
        \<and> mset (curve_boot c) = mset (map stored_quote quotes)
        \<and> (sorted_wrt (<) (map zq_time (curve_boot c)) \<longleftrightarrow>
             distinct (map (\<lambda>q. the_real (zq_time q)) quotes)))"
proof -
  have inv: "quote_invalid =
      (\<lambda>q. isnan (zq_time q) \<or> isinf (zq_time q) \<or> le_zero (zq_time q) \<or>
            isnan (zq_df q) \<or> isinf (zq_df q) \<or> le_zero (zq_df q))"
    by (auto simp: quote_invalid_def fun_eq_iff)
  have fails: "DiscountCurve_boot quotes = Inl InvalidArgument \<longleftrightarrow>
      quotes = [] \<or> list_ex quote_invalid quotes"
    by (simp add: DiscountCurve_boot_def)
  have other: "DiscountCurve_boot quotes \<noteq> Inl RootNotBracketed"
    by (simp add: DiscountCurve_boot_def)
  have stored: "curve_boot c \<noteq> []
        \<and> list_all (\<lambda>a. 0 < zq_time a \<and> 0 < zq_df a) (curve_boot c)
        \<and> sorted (map zq_time (curve_boot c))
        \<and> mset (curve_boot c) = mset (map stored_quote quotes)
        \<and> (sorted_wrt (<) (map zq_time (curve_boot c)) \<longleftrightarrow>
             distinct (map (\<lambda>q. the_real (zq_time q)) quotes))"
    if ok: "DiscountCurve_boot quotes = Inr c" for c
  proof -
    from ok have ne: "quotes \<noteq> []" and valid: "\<not> list_ex quote_invalid quotes"
      and c: "curve_boot c = sort_key zq_time (map stored_quote quotes)"
      by (auto simp: DiscountCurve_boot_def split: if_splits)
    have 1: "curve_boot c \<noteq> []"
      using ne by (metis c length_sort length_map length_0_conv)
    have 2: "list_all (\<lambda>a. 0 < zq_time a \<and> 0 < zq_df a) (curve_boot c)"
      unfolding c list_all_sort_key by (rule stored_quotes_positive [OF valid])
    have 3: "sorted (map zq_time (curve_boot c))"
      unfolding c by simp
    have 4: "mset (curve_boot c) = mset (map stored_quote quotes)"
      unfolding c by simp
    have m: "zq_time \<circ> stored_quote = (\<lambda>q. the_real (zq_time q))"
      by (simp add: fun_eq_iff stored_quote_def)
    have 5: "sorted_wrt (<) (map zq_time (curve_boot c)) \<longleftrightarrow>
             distinct (map (\<lambda>q. the_real (zq_time q)) quotes)"
      unfolding c strictly_sorted_sort_key by (simp add: m)
    from 1 2 3 4 5 show ?thesis by blast
  qed
  from fails other stored show ?thesis
    unfolding inv by blast
qed

theorem DiscountCurve_boot_validation_witness:
  "DiscountCurve_boot
     [\<lparr>zq_time = Finite 1, zq_df = Finite 0.95\<rparr>, \<lparr>zq_time = Finite 2, zq_df = Finite 0.90\<rparr>,
      \<lparr>zq_time = Finite 0.5, zq_df = Finite 0.98\<rparr>]
   = Inr \<lparr>curve_y = 0, curve_m = Continuous, curve_dc = ACT_365F,
          curve_boot = [\<lparr>zq_time = 0.5, zq_df = 0.98\<rparr>, \<lparr>zq_time = 1, zq_df = 0.95\<rparr>,
                        \<lparr>zq_time = 2, zq_df = 0.90\<rparr>]\<rparr>
   \<and> sorted_wrt (<) (map zq_time
          [\<lparr>zq_time = 0.5::real, zq_df = 0.98::real\<rparr>, \<lparr>zq_time = 1, zq_df = 0.95\<rparr>,
           \<lparr>zq_time = 2, zq_df = 0.90\<rparr>])
   \<and> DiscountCurve_boot [] = Inl InvalidArgument
   \<and> DiscountCurve_boot [\<lparr>zq_time = Finite 1, zq_df = NaN\<rparr>] = Inl InvalidArgument
   \<and> DiscountCurve_boot [\<lparr>zq_time = Finite (- 1), zq_df = Finite 0.95\<rparr>] = Inl InvalidArgument"
  using
    DiscountCurve_boot_validation [of
      "[\<lparr>zq_time = Finite 1, zq_df = Finite 0.95\<rparr>, \<lparr>zq_time = Finite 2, zq_df = Finite 0.90\<rparr>,
      \<lparr>zq_time = Finite 0.5, zq_df = Finite 0.98\<rparr>]"]
    DiscountCurve_boot_validation [of "[]"]
    DiscountCurve_boot_validation [of "[\<lparr>zq_time = Finite 1, zq_df = NaN\<rparr>]"]
    DiscountCurve_boot_validation [of "[\<lparr>zq_time = Finite (- 1), zq_df = Finite 0.95\<rparr>]"]
  by (simp add: DiscountCurve_boot_def quote_invalid_def stored_quote_def)

text \<open>
  The claim as first stated asks for discount factors in \<open>(0, 1]\<close> and strictly increasing
  times. A single quote with discount factor \<open>2\<close> is accepted and stored, and so are two
  quotes with the same time.
\<close>

theorem DiscountCurve_boot_counterexample:
  "DiscountCurve_boot [\<lparr>zq_time = Finite 1, zq_df = Finite 2\<rparr>]
     = Inr \<lparr>curve_y = 0, curve_m = Continuous, curve_dc = ACT_365F,
            curve_boot = [\<lparr>zq_time = 1, zq_df = 2\<rparr>]\<rparr>
   \<and> \<not> (2::real) \<le> 1
   \<and> DiscountCurve_boot
       [\<lparr>zq_time = Finite 1, zq_df = Finite 0.9\<rparr>, \<lparr>zq_time = Finite 1, zq_df = Finite 0.9\<rparr>]
     = Inr \<lparr>curve_y = 0, curve_m = Continuous, curve_dc = ACT_365F,
            curve_boot = [\<lparr>zq_time = 1, zq_df = 0.9\<rparr>, \<lparr>zq_time = 1, zq_df = 0.9\<rparr>]\<rparr>
   \<and> \<not> sorted_wrt (<) (map zq_time
          [\<lparr>zq_time = 1::real, zq_df = 0.9::real\<rparr>, \<lparr>zq_time = 1, zq_df = 0.9\<rparr>])"
  by (simp add: DiscountCurve_boot_def quote_invalid_def stored_quote_def)

section \<open>Discount factors\<close>

lemma DiscountCurve_boot_stored:
  assumes "DiscountCurve_boot quotes = Inr c"
  shows "curve_boot c \<noteq> []"
    and "list_all (\<lambda>a. 0 < zq_time a \<and> 0 < zq_df a) (curve_boot c)"
    and "sorted (map zq_time (curve_boot c))"
proof -
  from assms have ne: "quotes \<noteq> []" and valid: "\<not> list_ex quote_invalid quotes"
    and c: "curve_boot c = sort_key zq_time (map stored_quote quotes)"
    by (auto simp: DiscountCurve_boot_def split: if_splits)
  show "curve_boot c \<noteq> []"
    using ne by (metis c length_sort length_map length_0_conv)
  show "list_all (\<lambda>a. 0 < zq_time a \<and> 0 < zq_df a) (curve_boot c)"
    unfolding c list_all_sort_key by (rule stored_quotes_positive [OF valid])
  show "sorted (map zq_time (curve_boot c))"
    unfolding c by simp
qed


lemma lower_bound_first:
  assumes "boot \<noteq> []" and "t \<le> zq_time (hd boot)"
  shows "lower_bound boot t = 0"
  using assms by (cases boot) (simp_all add: lower_bound_def)

lemma lower_bound_between:
  assumes srt: "sorted (map zq_time boot)" and i: "Suc i < length boot"
    and lo: "zq_time (boot ! i) < t" and hi: "t \<le> zq_time (boot ! Suc i)"
  shows "lower_bound boot t = Suc i"
proof -
  have below: "zq_time (boot ! j) < t" if "j < Suc i" for j
  proof -
    from that i have "j \<le> i" and "i < length (map zq_time boot)" by simp_all
    with srt have "map zq_time boot ! j \<le> map zq_time boot ! i"
      by (simp add: sorted_iff_nth_mono)
    with that i lo show ?thesis by simp
  qed
  have "takeWhile (\<lambda>a. zq_time a < t) boot = take (Suc i) boot"
    by (rule takeWhile_eq_take_P_nth) (use below hi in auto)
  with i show ?thesis by (simp add: lower_bound_def)
qed

lemma lower_bound_past_last:
  assumes srt: "sorted (map zq_time boot)" and ne: "boot \<noteq> []"
    and hi: "zq_time (last boot) < t"
  shows "lower_bound boot t = length boot"
proof -
  have "zq_time a < t" if "a \<in> set boot" for a
  proof -
    from that obtain j where j: "j < length boot" and a: "a = boot ! j"
      by (auto simp: in_set_conv_nth)
    from j ne have "j \<le> length boot - 1" and "length boot - 1 < length (map zq_time boot)"
      by simp_all
    with srt have "map zq_time boot ! j \<le> map zq_time boot ! (length boot - 1)"
      by (simp add: sorted_iff_nth_mono)
    with j ne hi a show ?thesis by (simp add: last_conv_nth)
  qed
  then have tw: "takeWhile (\<lambda>a. zq_time a < t) boot = boot"
    unfolding takeWhile_eq_all_conv by blast
  show ?thesis unfolding lower_bound_def tw ..
qed

lemma df_interpolate_loglinear:
  assumes "0 < zq_df q0" and "0 < zq_df q1" and "zq_time q0 < zq_time q1"
  shows "df_interpolate q0 q1 t =
     exp (ln (zq_df q0) +
          (t - zq_time q0) / (zq_time q1 - zq_time q0) * (ln (zq_df q1) - ln (zq_df q0)))"
  using assms by (simp add: df_interpolate_def Let_def)

lemma df_boot_between:
  assumes srt: "sorted (map zq_time boot)"
    and pos: "list_all (\<lambda>a. 0 < zq_time a \<and> 0 < zq_df a) boot"
    and i: "Suc i < length boot"
    and lo: "zq_time (boot ! i) < t" and hi: "t \<le> zq_time (boot ! Suc i)"
  shows "df_boot boot t =
     exp (ln (zq_df (boot ! i)) +
          (t - zq_time (boot ! i)) / (zq_time (boot ! Suc i) - zq_time (boot ! i)) *
          (ln (zq_df (boot ! Suc i)) - ln (zq_df (boot ! i))))"
proof -
  from pos i have p0: "0 < zq_time (boot ! i)" "0 < zq_df (boot ! i)"
    and p1: "0 < zq_df (boot ! Suc i)"
    by (simp_all add: list_all_length)
  from p0 lo have t: "0 < t" by simp
  have it: "lower_bound boot t = Suc i"
    by (rule lower_bound_between [OF srt i lo hi])
  from lo hi have lt: "zq_time (boot ! i) < zq_time (boot ! Suc i)" by simp
  from t i show ?thesis
    by (simp add: df_boot_def it Let_def df_interpolate_loglinear [OF p0(2) p1 lt])
qed

lemma df_boot_first:
  assumes "boot \<noteq> []" and "0 < t" and "t \<le> zq_time (hd boot)"
  shows "df_boot boot t = zq_df (hd boot)"
  using assms by (simp add: df_boot_def lower_bound_first hd_conv_nth)

lemma df_boot_past_last:
  assumes srt: "sorted (map zq_time boot)"
    and pos: "list_all (\<lambda>a. 0 < zq_time a \<and> 0 < zq_df a) boot"
    and ne: "boot \<noteq> []" and hi: "zq_time (last boot) < t"
  shows "df_boot boot t = zq_df (last boot)"
proof -
  from pos ne have "0 < zq_time (last boot)"
    by (simp add: list_all_iff)
  with hi have "0 < t" by simp
  with ne show ?thesis
    by (simp add: df_boot_def lower_bound_past_last [OF srt ne hi])
qed

lemma df_boot_at_quote:
  assumes srt: "sorted (map zq_time boot)"
    and pos: "list_all (\<lambda>a. 0 < zq_time a \<and> 0 < zq_df a) boot"
    and jk: "j \<le> k" and k: "k < length boot"
    and same: "zq_time (boot ! j) = zq_time (boot ! k)"
    and first: "j = 0 \<or> zq_time (boot ! (j - 1)) < zq_time (boot ! j)"
  shows "df_boot boot (zq_time (boot ! k)) = zq_df (boot ! j)"
proof (cases j)
  case 0
  from k have ne: "boot \<noteq> []" by auto
  from pos k have "0 < zq_time (boot ! k)"
    by (simp add: list_all_length)
  moreover from same 0 ne have "zq_time (boot ! k) \<le> zq_time (hd boot)"
    by (simp add: hd_conv_nth)
  ultimately have "df_boot boot (zq_time (boot ! k)) = zq_df (hd boot)"
    by (rule df_boot_first [OF ne])
  with 0 ne show ?thesis by (simp add: hd_conv_nth)
next
  case (Suc i)
  with first have lt: "zq_time (boot ! i) < zq_time (boot ! Suc i)" by simp
  from Suc jk k have i: "Suc i < length boot" by simp
  from pos i have p: "0 < zq_df (boot ! Suc i)"
    by (simp add: list_all_length)
  have "df_boot boot (zq_time (boot ! Suc i)) =
     exp (ln (zq_df (boot ! i)) +
          (zq_time (boot ! Suc i) - zq_time (boot ! i)) / (zq_time (boot ! Suc i) - zq_time (boot ! i)) *
          (ln (zq_df (boot ! Suc i)) - ln (zq_df (boot ! i))))"
    by (rule df_boot_between [OF srt pos i lt]) simp
  also have "\<dots> = zq_df (boot ! Suc i)"
    using lt p by simp
  finally show ?thesis
    using same Suc by simp
qed

lemma exp_half_ln_bounds:
  "0.92466 < exp (0.5 * (ln 0.95 + ln 0.90) :: real)"
  "exp (0.5 * (ln 0.95 + ln 0.90) :: real) < 0.92467"
proof -
  have "ln (0.95 * 0.90) = ln 0.95 + ln (0.90::real)"
    by (rule ln_mult_pos) simp_all
  moreover have "(0.95 * 0.90 :: real) = 0.855"
    by simp
  ultimately have "ln 0.95 + ln 0.90 = ln (0.855::real)"
    by simp
  then have e: "exp (0.5 * (ln 0.95 + ln 0.90) :: real) = sqrt 0.855"
    by (simp add: powr_half_sqrt [symmetric] powr_def)
  show "0.92466 < exp (0.5 * (ln 0.95 + ln 0.90) :: real)"
    unfolding e by (rule real_less_rsqrt) (simp add: power2_eq_square)
  show "exp (0.5 * (ln 0.95 + ln 0.90) :: real) < 0.92467"
    unfolding e by (rule real_less_lsqrt) (simp_all add: power2_eq_square)
qed


lemma scenario_boot: "DiscountCurve_boot scenario_quotes = Inr scenario_curve"
  by (simp add: DiscountCurve_boot_def scenario_quotes_def scenario_curve_def
      quote_invalid_def stored_quote_def)

lemma scenario_df:
  "DiscountCurve_df scenario_curve (Finite 1.5) = Inr (exp (0.5 * (ln 0.95 + ln 0.90)))"
  by (simp add: DiscountCurve_df_def scenario_curve_def df_boot_def lower_bound_def
      df_interpolate_def Let_def algebra_simps)

lemma equal_time_boot:
  "0 < d \<Longrightarrow> 0 < d' \<Longrightarrow> DiscountCurve_boot (equal_time_quotes d d') = Inr (equal_time_curve d d')"
  by (simp add: DiscountCurve_boot_def equal_time_quotes_def equal_time_curve_def
      quote_invalid_def stored_quote_def)

lemma equal_time_df:
  "0 < d \<Longrightarrow> 0 < d' \<Longrightarrow> DiscountCurve_df (equal_time_curve d d') (Finite 2) = Inr d"
  by (simp add: DiscountCurve_df_def equal_time_curve_def df_boot_def lower_bound_def
      df_interpolate_def Let_def)


text \<open>
  Claim C2, as amended. For every curve, \<open>df t\<close> fails with \<open>InvalidArgument\<close> exactly when
  \<open>t\<close> is NaN or infinite, and every finite \<open>t \<le> 0\<close> gives \<open>1\<close>. For \<open>t > 0\<close>: a flat
  curve with yield \<open>y\<close> gives \<open>exp (- y * t)\<close> under continuous compounding and
  \<open>(1 + y / m)\<close> to the power \<open>- m * t\<close> under a discrete convention with \<open>m\<close> periods per
  year. A bootstrapped curve gives the discount factor of the first quote for \<open>t\<close> at or
  below the first quote time, and that of the last quote for \<open>t\<close> strictly above the last
  quote time. For \<open>t\<close> equal to a quote time it gives the factor of the first stored quote
  that has this time: at the last quote time this is the factor of the last quote, unless
  the quote stored before it has the same time. For \<open>t\<close> strictly between adjacent quote
  times \<open>t0 < t1\<close> with factors \<open>df0\<close>, \<open>df1\<close> it gives
  \<open>exp (ln df0 + ((t - t0) / (t1 - t0)) * (ln df1 - ln df0))\<close>. The quotes
  \<open>(0.5, 0.98), (1.0, 0.95), (2.0, 0.90)\<close> give \<open>df 1.5 = exp (0.5 * (ln 0.95 + ln 0.90))\<close>,
  which lies between \<open>0.92466\<close> and \<open>0.92467\<close>.
\<close>

theorem DiscountCurve_df_cases:
  "(DiscountCurve_df c t = Inl InvalidArgument \<longleftrightarrow> isnan t \<or> isinf t)
   \<and> DiscountCurve_df c t \<noteq> Inl RootNotBracketed
   \<and> (x \<le> 0 \<longrightarrow> DiscountCurve_df c (Finite x) = Inr 1)
   \<and> (DiscountCurve_flat (Finite y) cmp dc = Inr c \<and> 0 < x \<longrightarrow>
        DiscountCurve_df c (Finite x) =
          Inr (if cmp = Continuous then exp (- y * x)
               else (1 + y / periods cmp) powr (- periods cmp * x)))
   \<and> (DiscountCurve_boot quotes = Inr c \<longrightarrow>
        (0 < x \<and> x \<le> zq_time (hd (curve_boot c)) \<longrightarrow>
           DiscountCurve_df c (Finite x) = Inr (zq_df (hd (curve_boot c))))
      \<and> (zq_time (last (curve_boot c)) < x \<longrightarrow>
           DiscountCurve_df c (Finite x) = Inr (zq_df (last (curve_boot c))))
      \<and> ((length (curve_boot c) = 1
            \<or> zq_time (curve_boot c ! (length (curve_boot c) - 2)) < zq_time (last (curve_boot c)))
          \<and> x = zq_time (last (curve_boot c)) \<longrightarrow>
           DiscountCurve_df c (Finite x) = Inr (zq_df (last (curve_boot c))))
      \<and> (\<forall>j k. j \<le> k \<and> k < length (curve_boot c)
             \<and> zq_time (curve_boot c ! j) = zq_time (curve_boot c ! k)
             \<and> (j = 0 \<or> zq_time (curve_boot c ! (j - 1)) < zq_time (curve_boot c ! j)) \<longrightarrow>
           DiscountCurve_df c (Finite (zq_time (curve_boot c ! k))) =
             Inr (zq_df (curve_boot c ! j)))
      \<and> (\<forall>i. Suc i < length (curve_boot c) \<and> zq_time (curve_boot c ! i) < x
             \<and> x < zq_time (curve_boot c ! Suc i) \<longrightarrow>
           DiscountCurve_df c (Finite x) =
             Inr (exp (ln (zq_df (curve_boot c ! i)) +
                       (x - zq_time (curve_boot c ! i)) /
                         (zq_time (curve_boot c ! Suc i) - zq_time (curve_boot c ! i)) *
                       (ln (zq_df (curve_boot c ! Suc i)) - ln (zq_df (curve_boot c ! i)))))))
   \<and> DiscountCurve_boot scenario_quotes = Inr scenario_curve
   \<and> DiscountCurve_df scenario_curve (Finite 1.5) = Inr (exp (0.5 * (ln 0.95 + ln 0.90)))
   \<and> 0.92466 < exp (0.5 * (ln 0.95 + ln 0.90) :: real)
   \<and> exp (0.5 * (ln 0.95 + ln 0.90) :: real) < 0.92467"
proof -
  have fails: "DiscountCurve_df c t = Inl InvalidArgument \<longleftrightarrow> isnan t \<or> isinf t"
    and other: "DiscountCurve_df c t \<noteq> Inl RootNotBracketed"
    by (simp_all add: DiscountCurve_df_def)
  have early: "DiscountCurve_df c (Finite x) = Inr 1" if "x \<le> 0"
    using that by (simp add: DiscountCurve_df_def df_boot_def df_flat_def)
  have flat: "DiscountCurve_df c (Finite x) =
      Inr (if cmp = Continuous then exp (- y * x)
           else (1 + y / periods cmp) powr (- periods cmp * x))"
    if "DiscountCurve_flat (Finite y) cmp dc = Inr c" and "0 < x"
  proof -
    from that(1) have "curve_boot c = []" and "curve_y c = y" and "curve_m c = cmp"
      by (auto simp: DiscountCurve_flat_def)
    with that(2) show ?thesis
      by (cases cmp) (simp_all add: DiscountCurve_df_def df_flat_def std_pow_def)
  qed
  have boot: "(0 < x \<and> x \<le> zq_time (hd (curve_boot c)) \<longrightarrow>
           DiscountCurve_df c (Finite x) = Inr (zq_df (hd (curve_boot c))))
      \<and> (zq_time (last (curve_boot c)) < x \<longrightarrow>
           DiscountCurve_df c (Finite x) = Inr (zq_df (last (curve_boot c))))
      \<and> ((length (curve_boot c) = 1
            \<or> zq_time (curve_boot c ! (length (curve_boot c) - 2)) < zq_time (last (curve_boot c)))
          \<and> x = zq_time (last (curve_boot c)) \<longrightarrow>
           DiscountCurve_df c (Finite x) = Inr (zq_df (last (curve_boot c))))
      \<and> (\<forall>j k. j \<le> k \<and> k < length (curve_boot c)
             \<and> zq_time (curve_boot c ! j) = zq_time (curve_boot c ! k)
             \<and> (j = 0 \<or> zq_time (curve_boot c ! (j - 1)) < zq_time (curve_boot c ! j)) \<longrightarrow>
           DiscountCurve_df c (Finite (zq_time (curve_boot c ! k))) =
             Inr (zq_df (curve_boot c ! j)))
      \<and> (\<forall>i. Suc i < length (curve_boot c) \<and> zq_time (curve_boot c ! i) < x
             \<and> x < zq_time (curve_boot c ! Suc i) \<longrightarrow>
           DiscountCurve_df c (Finite x) =
             Inr (exp (ln (zq_df (curve_boot c ! i)) +
                       (x - zq_time (curve_boot c ! i)) /
                         (zq_time (curve_boot c ! Suc i) - zq_time (curve_boot c ! i)) *
                       (ln (zq_df (curve_boot c ! Suc i)) - ln (zq_df (curve_boot c ! i))))))"
    if ok: "DiscountCurve_boot quotes = Inr c"
  proof -
    from DiscountCurve_boot_stored [OF ok]
    have ne: "curve_boot c \<noteq> []"
      and pos: "list_all (\<lambda>a. 0 < zq_time a \<and> 0 < zq_df a) (curve_boot c)"
      and srt: "sorted (map zq_time (curve_boot c))"
      by simp_all
    have df: "DiscountCurve_df c (Finite z) = Inr (df_boot (curve_boot c) z)" for z
      using ne by (simp add: DiscountCurve_df_def)
    have 1: "DiscountCurve_df c (Finite x) = Inr (zq_df (hd (curve_boot c)))"
      if "0 < x" and "x \<le> zq_time (hd (curve_boot c))"
      unfolding df using df_boot_first [OF ne that] by simp
    have 2: "DiscountCurve_df c (Finite x) = Inr (zq_df (last (curve_boot c)))"
      if "zq_time (last (curve_boot c)) < x"
      unfolding df using df_boot_past_last [OF srt pos ne that] by simp
    have 5: "DiscountCurve_df c (Finite (zq_time (curve_boot c ! k))) =
             Inr (zq_df (curve_boot c ! j))"
      if "j \<le> k" and "k < length (curve_boot c)"
        and "zq_time (curve_boot c ! j) = zq_time (curve_boot c ! k)"
        and "j = 0 \<or> zq_time (curve_boot c ! (j - 1)) < zq_time (curve_boot c ! j)" for j k
      unfolding df using df_boot_at_quote [OF srt pos that] by simp
    have 3: "DiscountCurve_df c (Finite x) = Inr (zq_df (last (curve_boot c)))"
      if alone: "length (curve_boot c) = 1
            \<or> zq_time (curve_boot c ! (length (curve_boot c) - 2)) < zq_time (last (curve_boot c))"
        and x: "x = zq_time (last (curve_boot c))"
    proof -
      let ?n = "length (curve_boot c) - 1"
      from ne have l: "last (curve_boot c) = curve_boot c ! ?n" and n: "?n < length (curve_boot c)"
        by (simp_all add: last_conv_nth)
      from alone have "?n = 0 \<or> zq_time (curve_boot c ! (?n - 1)) < zq_time (curve_boot c ! ?n)"
        unfolding l by (auto simp: numeral_2_eq_2)
      from 5 [OF le_refl n refl this] show ?thesis
        unfolding x l .
    qed
    have 4: "DiscountCurve_df c (Finite x) =
             Inr (exp (ln (zq_df (curve_boot c ! i)) +
                       (x - zq_time (curve_boot c ! i)) /
                         (zq_time (curve_boot c ! Suc i) - zq_time (curve_boot c ! i)) *
                       (ln (zq_df (curve_boot c ! Suc i)) - ln (zq_df (curve_boot c ! i)))))"
      if "Suc i < length (curve_boot c)" and "zq_time (curve_boot c ! i) < x"
        and "x < zq_time (curve_boot c ! Suc i)" for i
      unfolding df using df_boot_between [OF srt pos that(1,2)] that(3) by simp
    from 1 2 3 4 5 show ?thesis by blast
  qed
  from fails other early flat boot scenario_boot scenario_df exp_half_ln_bounds
  show ?thesis by blast
qed


theorem DiscountCurve_df_cases_witness:
  "DiscountCurve_df scenario_curve NaN = Inl InvalidArgument
   \<and> DiscountCurve_df scenario_curve (Finite (- 1)) = Inr 1
   \<and> DiscountCurve_df \<lparr>curve_y = 0.05, curve_m = Annual, curve_dc = ACT_365F, curve_boot = []\<rparr>
        (Finite 1) = Inr (1 / 1.05)
   \<and> DiscountCurve_df scenario_curve (Finite 0.25) = Inr 0.98
   \<and> DiscountCurve_df scenario_curve (Finite 3) = Inr 0.90
   \<and> DiscountCurve_df scenario_curve (Finite 2) = Inr 0.90
   \<and> DiscountCurve_df scenario_curve (Finite 1.5) =
       Inr (exp (ln 0.95 + (1.5 - 1) / (2 - 1) * (ln 0.90 - ln 0.95)))
   \<and> DiscountCurve_df (equal_time_curve 0.8 0.7) (Finite 2) = Inr 0.8"
proof -
  have b: "DiscountCurve_boot scenario_quotes = Inr scenario_curve"
    by (simp add: DiscountCurve_boot_def scenario_quotes_def scenario_curve_def
        quote_invalid_def stored_quote_def)
  have f: "DiscountCurve_flat (Finite 0.05) Annual ACT_365F =
      Inr \<lparr>curve_y = 0.05, curve_m = Annual, curve_dc = ACT_365F, curve_boot = []\<rparr>"
    by (simp add: DiscountCurve_flat_def)
  have tab: "curve_boot scenario_curve =
      [\<lparr>zq_time = 0.5, zq_df = 0.98\<rparr>, \<lparr>zq_time = 1.0, zq_df = 0.95\<rparr>,
       \<lparr>zq_time = 2.0, zq_df = 0.90\<rparr>]"
    by (simp add: scenario_curve_def)
  have 1: "DiscountCurve_df scenario_curve NaN = Inl InvalidArgument"
    using DiscountCurve_df_cases [where c = scenario_curve and t = NaN] by simp
  have 2: "DiscountCurve_df scenario_curve (Finite (- 1)) = Inr 1"
    using DiscountCurve_df_cases [where c = scenario_curve and x = "- 1"] by simp
  have 3: "DiscountCurve_df \<lparr>curve_y = 0.05, curve_m = Annual, curve_dc = ACT_365F, curve_boot = []\<rparr>
        (Finite 1) = Inr (1 / 1.05)"
    using f DiscountCurve_df_cases [where y = "0.05" and cmp = Annual and dc = ACT_365F and x = 1
        and c = "\<lparr>curve_y = 0.05, curve_m = Annual, curve_dc = ACT_365F, curve_boot = []\<rparr>"]
    by (simp add: powr_minus_divide)
  have 4: "DiscountCurve_df scenario_curve (Finite 0.25) = Inr 0.98"
    using b DiscountCurve_df_cases [where c = scenario_curve and quotes = scenario_quotes
        and x = "0.25"]
    by (simp add: tab)
  have 5: "DiscountCurve_df scenario_curve (Finite 3) = Inr 0.90"
    using b DiscountCurve_df_cases [where c = scenario_curve and quotes = scenario_quotes
        and x = 3]
    by (simp add: tab)
  have 6: "DiscountCurve_df scenario_curve (Finite 2) = Inr 0.90"
    using b DiscountCurve_df_cases [where c = scenario_curve and quotes = scenario_quotes
        and x = 2]
    by (simp add: tab)
  have "Suc 1 < length (curve_boot scenario_curve) \<and> zq_time (curve_boot scenario_curve ! 1) < 1.5
      \<and> 1.5 < zq_time (curve_boot scenario_curve ! Suc 1)"
    by (simp add: tab)
  with b DiscountCurve_df_cases [where c = scenario_curve and quotes = scenario_quotes
        and x = "1.5"]
  have "DiscountCurve_df scenario_curve (Finite 1.5) =
      Inr (exp (ln (zq_df (curve_boot scenario_curve ! 1)) +
                (1.5 - zq_time (curve_boot scenario_curve ! 1)) /
                  (zq_time (curve_boot scenario_curve ! Suc 1) - zq_time (curve_boot scenario_curve ! 1)) *
                (ln (zq_df (curve_boot scenario_curve ! Suc 1)) - ln (zq_df (curve_boot scenario_curve ! 1)))))"
    by blast
  then have 7: "DiscountCurve_df scenario_curve (Finite 1.5) =
       Inr (exp (ln 0.95 + (1.5 - 1) / (2 - 1) * (ln 0.90 - ln 0.95)))"
    by (simp add: tab)
  have e: "DiscountCurve_boot (equal_time_quotes 0.8 0.7) = Inr (equal_time_curve 0.8 0.7)"
    by (simp add: equal_time_boot)
  have etab: "curve_boot (equal_time_curve d d') =
      [\<lparr>zq_time = 1, zq_df = 0.9\<rparr>, \<lparr>zq_time = 2, zq_df = d\<rparr>, \<lparr>zq_time = 2, zq_df = d'\<rparr>]"
    for d d' :: real
    by (simp add: equal_time_curve_def)
  have "(1::nat) \<le> 2 \<and> 2 < length (curve_boot (equal_time_curve 0.8 0.7))
      \<and> zq_time (curve_boot (equal_time_curve 0.8 0.7) ! 1) =
          zq_time (curve_boot (equal_time_curve 0.8 0.7) ! 2)
      \<and> ((1::nat) = 0 \<or> zq_time (curve_boot (equal_time_curve 0.8 0.7) ! (1 - 1))
            < zq_time (curve_boot (equal_time_curve 0.8 0.7) ! 1))"
    by (simp add: etab)
  with e DiscountCurve_df_cases [where c = "equal_time_curve 0.8 0.7"
        and quotes = "equal_time_quotes 0.8 0.7"]
  have "DiscountCurve_df (equal_time_curve 0.8 0.7)
          (Finite (zq_time (curve_boot (equal_time_curve 0.8 0.7) ! 2))) =
        Inr (zq_df (curve_boot (equal_time_curve 0.8 0.7) ! 1))"
    by blast
  then have 8: "DiscountCurve_df (equal_time_curve 0.8 0.7) (Finite 2) = Inr 0.8"
    by (simp add: etab)
  from 1 2 3 4 5 6 7 8 show ?thesis by blast
qed

text \<open>
  The claim as first stated has \<open>t\<close> at the last quote time return the discount factor of
  the last quote on every curve. When two quotes share the last time \<open>2\<close>, the search stops
  at the first of them: with the factors \<open>0.8\<close> and \<open>0.7\<close> stored in this order
  \<open>df 2 = 0.8\<close> and the last quote has \<open>0.7\<close>, and with the opposite order it is the
  other way round.
\<close>

theorem DiscountCurve_df_counterexample:
  "DiscountCurve_boot (equal_time_quotes 0.8 0.7) = Inr (equal_time_curve 0.8 0.7)
   \<and> DiscountCurve_df (equal_time_curve 0.8 0.7) (Finite 2) = Inr 0.8
   \<and> zq_time (last (curve_boot (equal_time_curve 0.8 0.7))) = 2
   \<and> zq_df (last (curve_boot (equal_time_curve 0.8 0.7))) = 0.7
   \<and> DiscountCurve_boot (equal_time_quotes 0.7 0.8) = Inr (equal_time_curve 0.7 0.8)
   \<and> DiscountCurve_df (equal_time_curve 0.7 0.8) (Finite 2) = Inr 0.7
   \<and> zq_time (last (curve_boot (equal_time_curve 0.7 0.8))) = 2
   \<and> zq_df (last (curve_boot (equal_time_curve 0.7 0.8))) = 0.8
   \<and> (0.8::real) \<noteq> 0.7"
  by (simp add: equal_time_boot equal_time_df) (simp add: equal_time_curve_def)

section \<open>The yield solver\<close>


lemma and_then_Inl [simp]: "and_then (Inl e) k = Inl e"
  by (simp add: and_then_def)

















































section \<open>Monte Carlo: batches and the scalar loop\<close>

lemma length_fill_randoms: "length (fst (fill_randoms normal n rng)) = n"
  by (induction n arbitrary: rng) (simp_all add: split_def Let_def)

lemma foldl_upt_nth:
  "foldl (\<lambda>s i. h s (xs ! i)) a [0..<length xs] = foldl h a xs"
proof (induction xs rule: rev_induct)
  case Nil
  show ?case by simp
next
  case (snoc x xs)
  have "foldl (\<lambda>s i. h s ((xs @ [x]) ! i)) a [0..<length xs] =
      foldl (\<lambda>s i. h s (xs ! i)) a [0..<length xs]"
    by (rule foldl_cong) (simp_all add: nth_append)
  with snoc show ?case by simp
qed

lemma scalar_paths_fold_anti:
  "scalar_paths n normal F0 K sigma sqrtT drift tp True (payoffSum, totalPaths, rng) =
     (foldl (\<lambda>s Z. s + payoff (F0 * exp (drift + sigma * sqrtT * Z)) K tp
                       + payoff (F0 * exp (drift + sigma * sqrtT * (- Z))) K tp)
        payoffSum (fst (fill_randoms normal n rng)),
      totalPaths + 2 * n,
      snd (fill_randoms normal n rng))"
  by (induction n arbitrary: payoffSum totalPaths rng) (simp_all add: split_def Let_def)

lemma scalar_paths_fold_plain:
  "scalar_paths n normal F0 K sigma sqrtT drift tp False (payoffSum, totalPaths, rng) =
     (foldl (\<lambda>s Z. s + payoff (F0 * exp (drift + sigma * sqrtT * Z)) K tp)
        payoffSum (fst (fill_randoms normal n rng)),
      totalPaths + n,
      snd (fill_randoms normal n rng))"
  by (induction n arbitrary: payoffSum totalPaths rng) (simp_all add: split_def Let_def)

lemma simulate_batch_scalar:
  assumes sqrtT: "sqrtT = sqrt T" and drift: "drift = - 0.5 * sigma * sigma * T"
  shows "simulate_batch normal F0 K sigma T sqrtT drift tp config n st =
     scalar_paths n normal F0 K sigma sqrtT drift tp (useAntithetic config) st"
proof (cases st)
  case (fields payoffSum totalPaths rng)
  let ?zs = "fst (fill_randoms normal n rng)"
  let ?p = "\<lambda>Z. payoff (F0 * exp (drift + sigma * sqrtT * Z)) K tp"
  let ?q = "\<lambda>Z. payoff (F0 * exp (drift + sigma * sqrtT * (- Z))) K tp"
  have n: "[0..<n] = [0..<length ?zs]"
    by (simp add: length_fill_randoms)
  have plain: "foldl (\<lambda>s i. s + payoff (generatePaths F0 sigma T ?zs ! i) K tp) payoffSum [0..<n] =
      foldl (\<lambda>s Z. s + ?p Z) payoffSum ?zs"
  proof -
    have "foldl (\<lambda>s i. s + payoff (generatePaths F0 sigma T ?zs ! i) K tp) payoffSum [0..<n] =
        foldl (\<lambda>s i. s + ?p (?zs ! i)) payoffSum [0..<length ?zs]"
      unfolding n by (rule foldl_cong) (simp_all add: generatePaths_def Let_def sqrtT drift)
    then show ?thesis
      by (simp only: foldl_upt_nth [where h = "\<lambda>s Z. s + ?p Z"])
  qed
  have anti: "foldl (\<lambda>s i. s + payoff (fst (generateAntitheticPaths F0 sigma T ?zs) ! i) K tp
                          + payoff (snd (generateAntitheticPaths F0 sigma T ?zs) ! i) K tp)
                payoffSum [0..<n] =
      foldl (\<lambda>s Z. s + ?p Z + ?q Z) payoffSum ?zs"
  proof -
    have "foldl (\<lambda>s i. s + payoff (fst (generateAntitheticPaths F0 sigma T ?zs) ! i) K tp
                          + payoff (snd (generateAntitheticPaths F0 sigma T ?zs) ! i) K tp)
                payoffSum [0..<n] =
        foldl (\<lambda>s i. s + ?p (?zs ! i) + ?q (?zs ! i)) payoffSum [0..<length ?zs]"
      unfolding n
      by (rule foldl_cong) (simp_all add: generateAntitheticPaths_def Let_def sqrtT drift)
    then show ?thesis
      by (simp only: foldl_upt_nth [where h = "\<lambda>s Z. s + ?p Z + ?q Z"])
  qed
  show ?thesis
  proof (cases "useAntithetic config")
    case True
    then have u: "useAntithetic config = True" by simp
    show ?thesis
      unfolding fields simulate_batch_def u scalar_paths_fold_anti
      by (simp only: split_def Let_def anti fst_conv snd_conv prod.case if_True if_cancel)
  next
    case False
    then have u: "useAntithetic config = False" by simp
    show ?thesis
      unfolding fields simulate_batch_def u scalar_paths_fold_plain
      by (simp only: split_def Let_def plain fst_conv snd_conv prod.case if_False if_cancel)
  qed
qed

lemma scalar_paths_add:
  "scalar_paths (a + b) normal F0 K sigma sqrtT drift tp anti st =
     scalar_paths b normal F0 K sigma sqrtT drift tp anti
       (scalar_paths a normal F0 K sigma sqrtT drift tp anti st)"
proof -
  obtain payoffSum totalPaths rng where st: "st = (payoffSum, totalPaths, rng)"
    by (cases st)
  have with_anti: "scalar_paths (a + b) normal F0 K sigma sqrtT drift tp True (p, t, r) =
     scalar_paths b normal F0 K sigma sqrtT drift tp True
       (scalar_paths a normal F0 K sigma sqrtT drift tp True (p, t, r))" for p t r
    by (induction a arbitrary: p t r) (simp_all add: split_def Let_def)
  have without: "scalar_paths (a + b) normal F0 K sigma sqrtT drift tp False (p, t, r) =
     scalar_paths b normal F0 K sigma sqrtT drift tp False
       (scalar_paths a normal F0 K sigma sqrtT drift tp False (p, t, r))" for p t r
    by (induction a arbitrary: p t r) (simp_all add: split_def Let_def)
  show ?thesis
    unfolding st by (cases anti) (simp_all add: with_anti without)
qed


lemma batch_loop_scalar:
  assumes bs: "0 < batchSize config"
    and sqrtT: "sqrtT = sqrt T" and drift: "drift = - 0.5 * sigma * sigma * T"
  shows "batch_loop normal F0 K sigma T sqrtT drift tp N config batch st =
     Some (scalar_paths (N - batch) normal F0 K sigma sqrtT drift tp (useAntithetic config) st)"
proof (induction "N - batch" arbitrary: batch st rule: less_induct)
  case less
  let ?run = "\<lambda>n. scalar_paths n normal F0 K sigma sqrtT drift tp (useAntithetic config)"
  show ?case
  proof (cases "batch < N")
    case False
    then have "N - batch = 0" by simp
    with False show ?thesis
      by (subst batch_loop.simps) simp
  next
    case True
    let ?c = "min (batchSize config) (N - batch)"
    from True bs have smaller: "N - (batch + batchSize config) < N - batch"
      by simp
    have "batch_loop normal F0 K sigma T sqrtT drift tp N config batch st =
        batch_loop normal F0 K sigma T sqrtT drift tp N config (batch + batchSize config)
          (?run ?c st)"
      using True
      by (subst batch_loop.simps) (simp add: Let_def simulate_batch_scalar [OF sqrtT drift])
    also have "\<dots> = Some (?run (N - (batch + batchSize config)) (?run ?c st))"
      by (rule less.hyps [OF smaller])
    also have "\<dots> = Some (?run (?c + (N - (batch + batchSize config))) st)"
      by (simp only: scalar_paths_add)
    also have "?c + (N - (batch + batchSize config)) = N - batch"
      using True by (simp add: min_def)
    finally show ?thesis .
  qed
qed

lemma simulateVectorized_scalar:
  assumes "0 < batchSize config"
  shows "simulateVectorized normal F0 K sigma T df tp N config rng =
     (if T \<le> 0 then Some (Finite (df * payoff F0 K tp), rng)
      else
        case scalar_paths N normal F0 K sigma (sqrt T) (- 0.5 * sigma * sigma * T) tp
               (useAntithetic config) (0, 0, rng) of
          (payoffSum, totalPaths, rng') \<Rightarrow>
            Some (if totalPaths = 0 then NaN else Finite (df * (payoffSum / real totalPaths)),
                  rng'))"
proof -
  have loop: "batch_loop normal F0 K sigma T (sqrt T) (- 0.5 * sigma * sigma * T) tp N config 0 st =
      Some (scalar_paths N normal F0 K sigma (sqrt T) (- 0.5 * sigma * sigma * T) tp
              (useAntithetic config) st)" for st
    using batch_loop_scalar [OF assms refl refl, of normal F0 K sigma T tp N 0 st]
    by (simp only: diff_zero)
  show ?thesis
    unfolding simulateVectorized_def Let_def loop option.case ..
qed

text \<open>
  Batches and the scalar loop, in the idealised arithmetic. For a fixed generator state,
  path count and configuration and all scalar inputs, a configuration that differs only in
  \<open>enableVectorization\<close> or in the (positive) \<open>batchSize\<close> gives the same output of
  \<open>simulateVectorized\<close>, price and generator state left behind, and so the same output of
  \<open>mcPriceAdvanced\<close>. For \<open>T > 0\<close> that output is the one of the scalar loop run over
  all \<open>N\<close> paths in one go, which makes one draw per path, in order, and adds the payoffs
  to the sum in the order of the draws. This is an equation between real numbers: it
  settles the order of the draws and of the additions, and that the loop ends. That the
  doubles of the two branches agree bit for bit is a statement on the rounding of the
  array \<^verbatim>\<open>exp\<close> of Eigen against \<^verbatim>\<open>std::exp\<close>, which this equation does not make.
\<close>

lemma simulateVectorized_batch_independent:
  assumes "0 < batchSize config" and "0 < bs"
  shows "simulateVectorized normal F0 K sigma T df tp N
           (config\<lparr>batchSize := bs, enableVectorization := v\<rparr>) rng =
         simulateVectorized normal F0 K sigma T df tp N config rng
       \<and> simulateVectorized normal F0 K sigma T df tp N config rng \<noteq> None
       \<and> simulateVectorized normal F0 K sigma T df tp N config rng =
           (if T \<le> 0 then Some (Finite (df * payoff F0 K tp), rng)
            else
              case scalar_paths N normal F0 K sigma (sqrt T) (- 0.5 * sigma * sigma * T) tp
                     (useAntithetic config) (0, 0, rng) of
                (payoffSum, totalPaths, rng') \<Rightarrow>
                  Some (if totalPaths = 0 then NaN
                        else Finite (df * (payoffSum / real totalPaths)), rng'))
       \<and> mcPriceAdvanced mt19937 normal F0 K sigma T df tp N
           (config\<lparr>batchSize := bs, enableVectorization := v\<rparr>) =
         mcPriceAdvanced mt19937 normal F0 K sigma T df tp N config"
proof -
  let ?config' = "config\<lparr>batchSize := bs, enableVectorization := v\<rparr>"
  from assms(2) have bs': "0 < batchSize ?config'" by simp
  have ua: "useAntithetic ?config' = useAntithetic config" by simp
  have same: "simulateVectorized normal F0 K sigma T df tp N ?config' r =
      simulateVectorized normal F0 K sigma T df tp N config r" for r
    unfolding simulateVectorized_scalar [OF bs'] simulateVectorized_scalar [OF assms(1)] ua ..
  have some: "simulateVectorized normal F0 K sigma T df tp N config rng \<noteq> None"
    unfolding simulateVectorized_scalar [OF assms(1)] by (simp add: split_def)
  have adv: "mcPriceAdvanced mt19937 normal F0 K sigma T df tp N ?config' =
      mcPriceAdvanced mt19937 normal F0 K sigma T df tp N config"
    by (simp add: mcPriceAdvanced_def same)
  from same [of rng] some adv
    simulateVectorized_scalar [OF assms(1), of normal F0 K sigma T df tp N rng]
  show ?thesis
    by blast
qed

lemma simulateVectorized_batch_independent_witness:
  "0 < batchSize (Config_default\<lparr>randomSeed := 123\<rparr>) \<and> (0::nat) < 1
   \<and> simulateVectorized counting_draw 1.2 1.25 0.25 1.5 0.93 Put 50000
        (Config_default\<lparr>randomSeed := 123, batchSize := 1, enableVectorization := False\<rparr>)
        (counting_seed 123) =
      simulateVectorized counting_draw 1.2 1.25 0.25 1.5 0.93 Put 50000
        (Config_default\<lparr>randomSeed := 123\<rparr>) (counting_seed 123)
   \<and> mcPriceAdvanced counting_seed counting_draw 1.2 1.25 0.25 1.5 0.93 Put 50000
        (Config_default\<lparr>randomSeed := 123, batchSize := 1, enableVectorization := False\<rparr>) =
      mcPriceAdvanced counting_seed counting_draw 1.2 1.25 0.25 1.5 0.93 Put 50000
        (Config_default\<lparr>randomSeed := 123\<rparr>)"
proof -
  have a: "0 < batchSize (Config_default\<lparr>randomSeed := 123\<rparr>)"
    by (simp add: Config_default_def)
  have b: "(0::nat) < 1" by simp
  from simulateVectorized_batch_independent [OF a b, of counting_draw "1.2" "1.25" "0.25" "1.5"
      "0.93" Put 50000 False "counting_seed 123" counting_seed] a b
  show ?thesis by simp
qed


text \<open>The batch size has to be positive: with \<open>batchSize = 0\<close>, a path to run and
  \<open>T > 0\<close> the batch loop never ends, and \<open>simulateVectorized\<close> has no result.\<close>

lemma batch_loop_zero_batch:
  "batch_loop normal F0 K sigma T sqrtT drift tp N config batch st = Some r \<Longrightarrow>
     \<not> (batchSize config = 0 \<and> batch < N)"
proof (erule batch_loop.raw_induct [rotated])
  fix loop :: "('a \<Rightarrow> real \<times> 'a) \<Rightarrow> real \<Rightarrow> real \<Rightarrow> real \<Rightarrow> real \<Rightarrow> real \<Rightarrow> real \<Rightarrow> OptionType
      \<Rightarrow> nat \<Rightarrow> Config \<Rightarrow> nat \<Rightarrow> real \<times> nat \<times> 'a \<Rightarrow> (real \<times> nat \<times> 'a) option"
  fix normal F0 K sigma T sqrtT drift tp N config batch st r
  assume IH: "\<And>normal F0 K sigma T sqrtT drift tp N config batch st r.
      loop normal F0 K sigma T sqrtT drift tp N config batch st = Some r \<Longrightarrow>
      \<not> (batchSize config = 0 \<and> batch < N)"
  assume unfolded: "(if batch < N then
        (let currentBatchSize = min (batchSize config) (N - batch) in
         loop normal F0 K sigma T sqrtT drift tp N config (batch + batchSize config)
           (simulate_batch normal F0 K sigma T sqrtT drift tp config currentBatchSize st))
      else Some st) = Some r"
  show "\<not> (batchSize config = 0 \<and> batch < N)"
  proof
    assume z: "batchSize config = 0 \<and> batch < N"
    with unfolded have "loop normal F0 K sigma T sqrtT drift tp N config batch
        (simulate_batch normal F0 K sigma T sqrtT drift tp config 0 st) = Some r"
      by (simp add: Let_def)
    from IH [OF this] z show False by simp
  qed
qed

lemma simulateVectorized_zero_batch:
  assumes "batchSize config = 0" and "0 < N" and "0 < T"
  shows "simulateVectorized normal F0 K sigma T df tp N config rng = None"
proof -
  have "batch_loop normal F0 K sigma T (sqrt T) (- 0.5 * sigma * sigma * T) tp N config 0 (0, 0, rng)
      = None"
  proof (cases "batch_loop normal F0 K sigma T (sqrt T) (- 0.5 * sigma * sigma * T) tp N config 0
        (0, 0, rng)")
    case None
    then show ?thesis .
  next
    case (Some r)
    from batch_loop_zero_batch [OF this] assms show ?thesis by simp
  qed
  with assms(3) show ?thesis
    unfolding simulateVectorized_def Let_def by simp
qed

lemma simulateVectorized_expired:
  "T \<le> 0 \<Longrightarrow>
     simulateVectorized normal F0 K sigma T df tp N config rng =
       Some (Finite (df * payoff F0 K tp), rng)"
  by (simp add: simulateVectorized_def)

lemma mcPrice_expired:
  "T \<le> 0 \<Longrightarrow>
     mcPrice mt19937 normal F0 K sigma T df tp N = Some (Finite (df * payoff F0 K tp))
     \<and> mcPriceAdvanced mt19937 normal F0 K sigma T df tp N config =
         Some (Finite (df * payoff F0 K tp))"
  by (simp add: mcPrice_def mcPriceAdvanced_def simulateVectorized_expired)

text \<open>
  Claim C6 says that for \<open>T \<le> 0\<close> every entry point returns the discounted intrinsic payoff
  with no simulation. \<open>simulateVectorized\<close>, and with it \<open>mcPrice\<close> and \<open>mcPriceAdvanced\<close>,
  does so (the two lemmas above). \<open>mcPriceWithStats\<close> has no such guard. For a call with
  \<open>F0 = 1.3\<close>, \<open>K = 1.25\<close>, \<open>sigma = 0.2\<close>, \<open>df = 0.95\<close>, the default configuration and
  one path: at \<open>T = - 1\<close> the three statistics are NaN; at \<open>T = 0\<close> the loop makes a
  draw and stores two payoffs; with no path at all the statistics are NaN again. On the
  same inputs \<open>simulateVectorized\<close> returns \<open>0.95 * 0.05\<close> and leaves the generator
  untouched.
\<close>

theorem mcPriceWithStats_expired:
  "mcPriceWithStats mt19937 normal 1.3 1.25 0.2 (- 1) 0.95 Call 1 Config_default =
     Some \<lparr>price = NaN, standardError = NaN, confidenceInterval95 = NaN,
           effectivePaths = 2, varianceReduction = 0\<rparr>
   \<and> mcPriceWithStats_paths mt19937 normal 1.3 1.25 0.2 0 Call 1 Config_default =
       Some ([0.05, 0.05], snd (normal (mt19937 42)))
   \<and> mcPriceWithStats mt19937 normal 1.3 1.25 0.2 0 0.95 Call 0 Config_default =
     Some \<lparr>price = NaN, standardError = NaN, confidenceInterval95 = NaN,
           effectivePaths = 0, varianceReduction = 0\<rparr>
   \<and> simulateVectorized normal 1.3 1.25 0.2 0 0.95 Call 1 Config_default (mt19937 42) =
       Some (Finite (0.95 * 0.05), mt19937 42)
   \<and> simulateVectorized normal 1.3 1.25 0.2 (- 1) 0.95 Call 1 Config_default (mt19937 42) =
       Some (Finite (0.95 * 0.05), mt19937 42)"
proof -
  have one: "stats_batch_loop normal F0 K sigma T sqrtT drift tp 1 Config_default 0 ([], rng) =
      Some (stats_scalar_paths 1 normal F0 K sigma sqrtT drift tp True ([], rng))"
    for F0 K sigma T sqrtT drift tp and rng :: 'a
    by (subst stats_batch_loop.simps, subst stats_batch_loop.simps)
      (simp add: Config_default_def stats_batch_def)
  have none: "stats_batch_loop normal F0 K sigma T sqrtT drift tp 0 Config_default 0 ([], rng) =
      Some ([], rng)"
    for F0 K sigma T sqrtT drift tp and rng :: 'a
    by (subst stats_batch_loop.simps) simp
  have paths: "mcPriceWithStats_paths mt19937 normal 1.3 1.25 0.2 0 Call 1 Config_default =
       Some ([0.05, 0.05], snd (normal (mt19937 42)))"
    unfolding mcPriceWithStats_paths_def Let_def one
    by (simp add: Config_default_def split_def payoff_def std_max_def)
  have neg: "mcPriceWithStats mt19937 normal 1.3 1.25 0.2 (- 1) 0.95 Call 1 Config_default =
     Some \<lparr>price = NaN, standardError = NaN, confidenceInterval95 = NaN,
           effectivePaths = 2, varianceReduction = 0\<rparr>"
    unfolding mcPriceWithStats_def mcPriceWithStats_paths_def Let_def one
    by (simp add: Config_default_def split_def)
  have empty: "mcPriceWithStats mt19937 normal 1.3 1.25 0.2 0 0.95 Call 0 Config_default =
     Some \<lparr>price = NaN, standardError = NaN, confidenceInterval95 = NaN,
           effectivePaths = 0, varianceReduction = 0\<rparr>"
    unfolding mcPriceWithStats_def mcPriceWithStats_paths_def Let_def none
    by (simp add: Config_default_def)
  have sim: "simulateVectorized normal 1.3 1.25 0.2 T 0.95 Call 1 Config_default (mt19937 42) =
       Some (Finite (0.95 * 0.05), mt19937 42)" if "T \<le> 0" for T
    using that by (simp add: simulateVectorized_expired payoff_def std_max_def)
  from paths neg empty sim [of 0] sim [of "- 1"] show ?thesis
    by simp
qed

end
